theory Spec2Isabelle
  imports
    Main
    "HOL-Library.Word"
    "HOL-Library.Multiset"
    "HOL-Library.Char_ord"
    "HOL-Library.List_Lexorder"
    "HOL-Library.Product_Lexorder"
    "HOL-Library.Sublist"
begin

section \<open>Data model\<close>

text \<open>
  The metrics endpoint of \<^verbatim>\<open>routes/api/metrics.go\<close>. Go's \<^verbatim>\<open>int64\<close> is a 64-bit word,
  a \<^verbatim>\<open>time.Duration\<close> is an \<^verbatim>\<open>int64\<close> of nanoseconds, a point in time is an integer,
  a Go \<^verbatim>\<open>error\<close> value carries its message.
\<close>

type_synonym int64 = "64 word"
type_synonym Duration = "64 word"
type_synonym Time = int

datatype error = Error string

record User =
  ID :: string
  IsAdmin :: bool

text \<open>
  \<^verbatim>\<open>mm.Label\<close>, \<^verbatim>\<open>mm.GaugeMetric\<close> and \<^verbatim>\<open>mm.CounterMetric\<close> with the fields the handler
  fills in. A slice field that can be \<^verbatim>\<open>nil\<close> is an option: \<open>None\<close> is the nil slice,
  \<open>Some []\<close> is the empty literal \<^verbatim>\<open>[]mm.Label{}\<close>.
\<close>

datatype Label = Label (label_Key: string) (label_Value: string)

datatype Metric =
    GaugeMetric (Name: string) (Desc: string) (Value: int64) (Labels: "Label list option")
  | CounterMetric (Name: string) (Desc: string) (Value: int64) (Labels: "Label list option")

text \<open>The parts of a summary that the handler reads: six lists of items, each with a key.\<close>

record SummaryItem =
  item_Key :: string
  item_Total :: Duration

record Summary =
  Projects :: "SummaryItem list"
  Languages :: "SummaryItem list"
  Editors :: "SummaryItem list"
  OperatingSystems :: "SummaryItem list"
  Machines :: "SummaryItem list"
  SummaryLabels :: "SummaryItem list"

datatype SummaryType =
  SummaryProject | SummaryLanguage | SummaryEditor | SummaryOS | SummaryMachine | SummaryLabel

record CountByUser =
  uc_User :: string
  uc_Count :: int64

record QueueMetrics =
  Queue :: string
  EnqueuedJobs :: int64
  FinishedJobs :: int64

record KeyStringValue =
  kv_Key :: string
  kv_Value :: string

record MemStats =
  Alloc :: "64 word"
  Sys :: "64 word"
  PauseTotalNs :: "64 word"
  NumGC :: "32 word"

section \<open>Collaborators\<close>

text \<open>
  The handler's services and the package-level functions it reads. A Go call returning
  \<^verbatim>\<open>(value, error)\<close> is a sum where the handler returns on the error, and a pair of the
  value and an optional error where the handler goes on with the value.
  The last two fields stand for the Go runtime: the order in which the worker pool's tasks
  take the lock, and the standard library's \<^verbatim>\<open>sort.Sort\<close> on the metric slice.
\<close>

record MetricsHandler =
  summarySrvc_Aliased :: "Time \<Rightarrow> Time \<Rightarrow> User \<Rightarrow> error + Summary"
  heartbeatSrvc_CountByUser :: "User \<Rightarrow> error + int64"
  heartbeatSrvc_Count :: "bool \<Rightarrow> int64 \<times> error option"
  heartbeatSrvc_CountByUsers :: "User list \<Rightarrow> error + CountByUser list"
  userSrvc_Count :: "int64 \<times> error option"
  userSrvc_GetActive :: "bool \<Rightarrow> error + User list"
  keyValueSrvc_GetString :: "string \<Rightarrow> KeyStringValue option \<times> error option"
  metricsRepo_GetDatabaseSize :: "int64 \<times> error option"
  conf_GetQueueMetrics :: "QueueMetrics list"
  runtime_ReadMemStats :: MemStats
  runtime_NumGoroutine :: int64
  time_Now :: Time
  time_Truncate_Hour :: "Time \<Rightarrow> Time"
  time_ParseDuration :: "string \<Rightarrow> error + Duration"
  helpers_MustResolveIntervalRawTZ_today :: "User \<Rightarrow> Time \<times> Time"
  helpers_ResolveIntervalTZ_any :: "Time \<times> Time"
  Duration_Seconds :: "Duration \<Rightarrow> int64"
  Summary_TotalTime :: "Summary \<Rightarrow> Duration"
  Summary_TotalTimeByKey :: "Summary \<Rightarrow> SummaryType \<Rightarrow> string \<Rightarrow> Duration"
  NewAllTimeFrom_TotalSeconds :: "Summary \<Rightarrow> int64"
  pool_order :: "nat \<Rightarrow> nat list"
  sort_Sort :: "Metric list \<Rightarrow> Metric list"

text \<open>Every call to a collaborator is recorded, in the order the handler makes it.\<close>

datatype call =
    Call_Aliased Time Time User
  | Call_CountByUser User
  | Call_ReadMemStats
  | Call_NumGoroutine
  | Call_GetDatabaseSize
  | Call_GetQueueMetrics
  | Call_GetString string
  | Call_UserCount
  | Call_HeartbeatCount bool
  | Call_GetActive bool
  | Call_CountByUsers "User list"

section \<open>Constants\<close>

definition MetricsPrefix :: string where
  "MetricsPrefix = ''wakatime''"

definition DescHeartbeats :: string where
  "DescHeartbeats = ''Total number of tracked heartbeats.''"
definition DescAllTime :: string where
  "DescAllTime = ''Total seconds (all time).''"
definition DescTotal :: string where
  "DescTotal = ''Total seconds.''"
definition DescEditors :: string where
  "DescEditors = ''Total seconds for each editor.''"
definition DescProjects :: string where
  "DescProjects = ''Total seconds for each project.''"
definition DescLanguages :: string where
  "DescLanguages = ''Total seconds for each language.''"
definition DescOperatingSystems :: string where
  "DescOperatingSystems = ''Total seconds for each operating system.''"
definition DescMachines :: string where
  "DescMachines = ''Total seconds for each machine.''"
definition DescLabels :: string where
  "DescLabels = ''Total seconds for each project label.''"

definition DescAdminTotalTime :: string where
  "DescAdminTotalTime = ''Total seconds (all users, all time).''"
definition DescAdminTotalHeartbeats :: string where
  "DescAdminTotalHeartbeats = ''Total number of tracked heartbeats (all users, all time)''"
definition DescAdminUserHeartbeats :: string where
  "DescAdminUserHeartbeats = ''Total number of tracked heartbeats by user (all time).''"
definition DescAdminUserTime :: string where
  "DescAdminUserTime = ''Total tracked activity in seconds (all time) (active users only).''"
definition DescAdminTotalUsers :: string where
  "DescAdminTotalUsers = ''Total number of registered users.''"
definition DescAdminActiveUsers :: string where
  "DescAdminActiveUsers = ''Number of active users.''"

definition DescJobQueueEnqueued :: string where
  "DescJobQueueEnqueued = ''Number of jobs currently enqueued''"
definition DescJobQueueTotalFinished :: string where
  "DescJobQueueTotalFinished = ''Total number of processed jobs''"

definition DescMemAllocTotal :: string where
  "DescMemAllocTotal = ''Total number of bytes allocated for heap''"
definition DescMemSysTotal :: string where
  "DescMemSysTotal = ''Total number of bytes obtained from the OS''"
definition DescPausedTotal :: string where
  "DescPausedTotal = ''Total nanoseconds stop-the-world pause time due to GC''"
definition DescNumGCTotal :: string where
  "DescNumGCTotal = ''Total number of GC cycles''"
definition DescGoroutines :: string where
  "DescGoroutines = ''Total number of running goroutines''"
definition DescDatabaseSize :: string where
  "DescDatabaseSize = ''Total database size in bytes''"

definition KeyLatestTotalTime :: string where
  "KeyLatestTotalTime = ''latest_total_time''"

definition ErrUnauthorized :: string where
  "ErrUnauthorized = ''401 unauthorized''"
definition ErrInternalServerError :: string where
  "ErrInternalServerError = ''500 internal server error''"

definition StatusUnauthorized :: nat where
  "StatusUnauthorized = 401"
definition StatusInternalServerError :: nat where
  "StatusInternalServerError = 500"
definition StatusOK :: nat where
  "StatusOK = 200"

text \<open>The zero value \<^verbatim>\<open>time.Time{}\<close>.\<close>

definition zero_Time :: Time where
  "zero_Time = 0"

section \<open>getUserMetrics\<close>

text \<open>
  The three service calls that can end the function early, then the metrics in the order
  they are appended. \<^verbatim>\<open>append(metrics, m)\<close> is \<open>metrics @ [m]\<close>, a \<^verbatim>\<open>range\<close> loop is a
  left fold over the slice. The error of \<^verbatim>\<open>GetDatabaseSize\<close> is only logged. Log output
  has no influence on any value and is left out.
\<close>

definition getUserMetrics :: "MetricsHandler \<Rightarrow> User \<Rightarrow> (error + Metric list) \<times> call list" where
  "getUserMetrics h user =
    (let metrics = [];
         c1 = [Call_Aliased zero_Time (time_Now h) user]
     in case summarySrvc_Aliased h zero_Time (time_Now h) user of
          Inl err \<Rightarrow> (Inl err, c1)
        | Inr summaryAllTime \<Rightarrow>
    (let (from, to) = helpers_MustResolveIntervalRawTZ_today h user;
         c2 = c1 @ [Call_Aliased from to user]
     in case summarySrvc_Aliased h from to user of
          Inl err \<Rightarrow> (Inl err, c2)
        | Inr summaryToday \<Rightarrow>
    (let c3 = c2 @ [Call_CountByUser user]
     in case heartbeatSrvc_CountByUser h user of
          Inl err \<Rightarrow> (Inl err, c3)
        | Inr heartbeatCount \<Rightarrow>
    (let metrics = metrics @ [GaugeMetric (MetricsPrefix @ ''_cumulative_seconds_total'')
           DescAllTime (NewAllTimeFrom_TotalSeconds h summaryAllTime) (Some [])];
         metrics = metrics @ [GaugeMetric (MetricsPrefix @ ''_seconds_total'')
           DescTotal (Duration_Seconds h (Summary_TotalTime h summaryToday)) (Some [])];
         metrics = metrics @ [GaugeMetric (MetricsPrefix @ ''_heartbeats_total'')
           DescHeartbeats heartbeatCount (Some [])];
         metrics = foldl (\<lambda>metrics p. metrics @ [GaugeMetric (MetricsPrefix @ ''_project_seconds_total'')
           DescProjects
           (Duration_Seconds h (Summary_TotalTimeByKey h summaryToday SummaryProject (item_Key p)))
           (Some [Label ''name'' (item_Key p)])]) metrics (Projects summaryToday);
         metrics = foldl (\<lambda>metrics l. metrics @ [GaugeMetric (MetricsPrefix @ ''_language_seconds_total'')
           DescLanguages
           (Duration_Seconds h (Summary_TotalTimeByKey h summaryToday SummaryLanguage (item_Key l)))
           (Some [Label ''name'' (item_Key l)])]) metrics (Languages summaryToday);
         metrics = foldl (\<lambda>metrics e. metrics @ [GaugeMetric (MetricsPrefix @ ''_editor_seconds_total'')
           DescEditors
           (Duration_Seconds h (Summary_TotalTimeByKey h summaryToday SummaryEditor (item_Key e)))
           (Some [Label ''name'' (item_Key e)])]) metrics (Editors summaryToday);
         metrics = foldl (\<lambda>metrics os. metrics @ [GaugeMetric (MetricsPrefix @ ''_operating_system_seconds_total'')
           DescOperatingSystems
           (Duration_Seconds h (Summary_TotalTimeByKey h summaryToday SummaryOS (item_Key os)))
           (Some [Label ''name'' (item_Key os)])]) metrics (OperatingSystems summaryToday);
         metrics = foldl (\<lambda>metrics m. metrics @ [GaugeMetric (MetricsPrefix @ ''_machine_seconds_total'')
           DescMachines
           (Duration_Seconds h (Summary_TotalTimeByKey h summaryToday SummaryMachine (item_Key m)))
           (Some [Label ''name'' (item_Key m)])]) metrics (Machines summaryToday);
         metrics = foldl (\<lambda>metrics m. metrics @ [GaugeMetric (MetricsPrefix @ ''_label_seconds_total'')
           DescLabels
           (Duration_Seconds h (Summary_TotalTimeByKey h summaryToday SummaryLabel (item_Key m)))
           (Some [Label ''name'' (item_Key m)])]) metrics (SummaryLabels summaryToday);
         memStats = runtime_ReadMemStats h;
         metrics = metrics @ [GaugeMetric (MetricsPrefix @ ''_goroutines_total'')
           DescGoroutines (runtime_NumGoroutine h) (Some [])];
         metrics = metrics @ [GaugeMetric (MetricsPrefix @ ''_mem_alloc_total'')
           DescMemAllocTotal (Alloc memStats) (Some [])];
         metrics = metrics @ [GaugeMetric (MetricsPrefix @ ''_mem_sys_total'')
           DescMemSysTotal (Sys memStats) (Some [])];
         metrics = metrics @ [CounterMetric (MetricsPrefix @ ''_paused_total'')
           DescPausedTotal (PauseTotalNs memStats) (Some [])];
         metrics = metrics @ [CounterMetric (MetricsPrefix @ ''_num_gc_total'')
           DescNumGCTotal (ucast (NumGC memStats)) (Some [])];
         (dbSize, err) = metricsRepo_GetDatabaseSize h;
         metrics = metrics @ [GaugeMetric (MetricsPrefix @ ''_db_total_bytes'')
           DescDatabaseSize dbSize (Some [])];
         metrics = foldl (\<lambda>metrics qm. metrics
           @ [GaugeMetric (MetricsPrefix @ ''_queue_jobs_enqueued'')
                DescJobQueueEnqueued (EnqueuedJobs qm) (Some [Label ''queue'' (Queue qm)])]
           @ [CounterMetric (MetricsPrefix @ ''_queue_jobs_total_finished'')
                DescJobQueueTotalFinished (FinishedJobs qm) (Some [Label ''queue'' (Queue qm)])])
           metrics (conf_GetQueueMetrics h)
     in (Inr metrics,
         c3 @ [Call_ReadMemStats, Call_NumGoroutine, Call_GetDatabaseSize, Call_GetQueueMetrics])))))"

section \<open>getAdminMetrics\<close>

text \<open>
  One task of the worker pool, for the active user at index \<open>i\<close>: it asks for the user's
  summary and, if that succeeds, appends one gauge under the lock; if it fails, it returns
  without appending. The task submitted in iteration \<open>i\<close> of the loop reads
  \<^verbatim>\<open>activeUsers[i]\<close>; an index for which no task was submitted does nothing.
\<close>

definition total_time_task ::
  "MetricsHandler \<Rightarrow> Time \<Rightarrow> Time \<Rightarrow> User list \<Rightarrow> Metric list \<Rightarrow> nat \<Rightarrow> Metric list" where
  "total_time_task h from to activeUsers metrics i =
    (if i < length activeUsers then
       (case summarySrvc_Aliased h from to (activeUsers ! i) of
          Inl err \<Rightarrow> metrics
        | Inr summary \<Rightarrow>
            metrics @ [GaugeMetric (MetricsPrefix @ ''_admin_user_time_seconds_total'')
              DescAdminUserTime (Duration_Seconds h (Summary_TotalTime h summary))
              (Some [Label ''user'' (ID (activeUsers ! i))])])
     else metrics)"

text \<open>
  The function itself. The errors of the key-value lookup, of the duration parser, of the
  user count and of the heartbeat count are dropped by the code; only the list of active
  users and the per-user heartbeat counts end the function early. The tasks append in the
  order \<open>pool_order h n\<close> in which the \<open>n\<close> submitted tasks take the lock, and
  \<^verbatim>\<open>StopAndWait\<close> returns when all of them are done.
\<close>

definition getAdminMetrics :: "MetricsHandler \<Rightarrow> User \<Rightarrow> (error + Metric list) \<times> call list" where
  "getAdminMetrics h user =
    (let metrics = []
     in if \<not> IsAdmin user then (Inl (Error ''unauthorized''), [])
        else
    (let totalSeconds =
           (case keyValueSrvc_GetString h KeyLatestTotalTime of
              (Some t, None) \<Rightarrow>
                 if kv_Value t \<noteq> []
                 then (case time_ParseDuration h (kv_Value t) of
                         Inr d \<Rightarrow> Duration_Seconds h d
                       | Inl err \<Rightarrow> 0)
                 else 0
            | _ \<Rightarrow> 0);
         totalUsers = fst (userSrvc_Count h);
         totalHeartbeats = fst (heartbeatSrvc_Count h True);
         c1 = [Call_GetString KeyLatestTotalTime, Call_UserCount, Call_HeartbeatCount True,
               Call_GetActive False]
     in case userSrvc_GetActive h False of
          Inl err \<Rightarrow> (Inl err, c1)
        | Inr activeUsers \<Rightarrow>
    (let metrics = metrics @ [GaugeMetric (MetricsPrefix @ ''_admin_seconds_total'')
           DescAdminTotalTime totalSeconds (Some [])];
         metrics = metrics @ [GaugeMetric (MetricsPrefix @ ''_admin_heartbeats_total'')
           DescAdminTotalHeartbeats totalHeartbeats (Some [])];
         metrics = metrics @ [GaugeMetric (MetricsPrefix @ ''_admin_users_total'')
           DescAdminTotalUsers totalUsers (Some [])];
         metrics = metrics @ [GaugeMetric (MetricsPrefix @ ''_admin_users_active_total'')
           DescAdminActiveUsers (of_nat (length activeUsers)) (Some [])];
         c2 = c1 @ [Call_CountByUsers activeUsers]
     in case heartbeatSrvc_CountByUsers h activeUsers of
          Inl err \<Rightarrow> (Inl err, c2)
        | Inr userCounts \<Rightarrow>
    (let metrics = foldl (\<lambda>metrics uc. metrics @ [GaugeMetric (MetricsPrefix @ ''_admin_user_heartbeats_total'')
           DescAdminUserHeartbeats (uc_Count uc) (Some [Label ''user'' (uc_User uc)])])
           metrics userCounts;
         (from, to) = helpers_ResolveIntervalTZ_any h;
         to = time_Truncate_Hour h to;
         order = pool_order h (length activeUsers);
         metrics = foldl (total_time_task h from to activeUsers) metrics order
     in (Inr metrics,
         c2 @ map (\<lambda>i. Call_Aliased from to (activeUsers ! i))
                (filter (\<lambda>i. i < length activeUsers) order))))))"

section \<open>Sorting and rendering the metric set\<close>

text \<open>
  Modelled from the spec: the package \<^verbatim>\<open>models/metrics\<close> (the type \<^verbatim>\<open>mm.Metrics\<close> with
  its \<^verbatim>\<open>Len\<close>, \<^verbatim>\<open>Less\<close>, \<^verbatim>\<open>Swap\<close> and \<^verbatim>\<open>Print\<close>) is not among the sources. The spec
  orders metrics by the pair of the name and the first label's value, ascending; a metric
  without labels has the empty string there. Strings compare bytewise.
\<close>

definition first_label_value :: "Metric \<Rightarrow> string" where
  "first_label_value m = (case Labels m of Some (l # ls) \<Rightarrow> label_Value l | _ \<Rightarrow> [])"

definition Metric_Key :: "Metric \<Rightarrow> string \<times> string" where
  "Metric_Key m = (Name m, first_label_value m)"

definition Less :: "Metric \<Rightarrow> Metric \<Rightarrow> bool" where
  "Less a b \<longleftrightarrow> Metric_Key a < Metric_Key b"

text \<open>
  What the Go standard library promises of \<^verbatim>\<open>sort.Sort\<close>: the result holds the same
  elements, and no element is \<^verbatim>\<open>Less\<close> than one before it. Its documentation adds that
  the sort is not guaranteed to be stable; the algorithm behind it belongs to the Go
  release, not to this repository.
\<close>

definition sort_Sort_post :: "Metric list \<Rightarrow> Metric list \<Rightarrow> bool" where
  "sort_Sort_post xs ys \<longleftrightarrow> mset ys = mset xs \<and> sorted_wrt (\<lambda>a b. \<not> Less b a) ys"


text \<open>
  Modelled from the spec: the renderer \<^verbatim>\<open>Print\<close> of \<^verbatim>\<open>models/metrics\<close>, which is not among
  the sources. For each distinct name, in the order of first occurrence, one \<^verbatim>\<open># HELP\<close>
  line and one \<^verbatim>\<open># TYPE\<close> line, then one sample line for each metric of that name; the
  label block is left out when there are no labels; label values are written as they are
  (the spec notes that the renderer does not escape them).
\<close>

datatype kind = gauge | counter

datatype line = Help_line string string | Type_line string kind | Sample_line Metric

fun kind_of :: "Metric \<Rightarrow> kind" where
  "kind_of (GaugeMetric n d v ls) = gauge"
| "kind_of (CounterMetric n d v ls) = counter"

fun first_occurrences :: "string list \<Rightarrow> string list" where
  "first_occurrences [] = []"
| "first_occurrences (n # ns) = n # filter (\<lambda>k. k \<noteq> n) (first_occurrences ns)"

definition distinct_names :: "Metric list \<Rightarrow> string list" where
  "distinct_names ms = first_occurrences (map Name ms)"

definition block :: "Metric list \<Rightarrow> string \<Rightarrow> line list" where
  "block ms n =
     (case filter (\<lambda>m. Name m = n) ms of
        [] \<Rightarrow> []
      | m # rest \<Rightarrow> [Help_line n (Desc m), Type_line n (kind_of m)] @ map Sample_line (m # rest))"

definition Print_lines :: "Metric list \<Rightarrow> line list" where
  "Print_lines ms = concat (map (block ms) (distinct_names ms))"

fun show_nat :: "nat \<Rightarrow> string" where
  "show_nat n = (if n < 10 then [char_of (48 + n)]
                 else show_nat (n div 10) @ [char_of (48 + n mod 10)])"

declare show_nat.simps [simp del]

definition show_int64 :: "int64 \<Rightarrow> string" where
  "show_int64 v = (if sint v < 0 then ''-'' @ show_nat (nat (- sint v)) else show_nat (nat (sint v)))"

fun join_comma :: "string list \<Rightarrow> string" where
  "join_comma [] = []"
| "join_comma [s] = s"
| "join_comma (s # t # ss) = s @ '','' @ join_comma (t # ss)"

definition render_label :: "Label \<Rightarrow> string" where
  "render_label l = label_Key l @ ''='' @ [CHR 0x22] @ label_Value l @ [CHR 0x22]"

definition render_labels :: "Label list option \<Rightarrow> string" where
  "render_labels ls =
     (case ls of
        None \<Rightarrow> []
      | Some [] \<Rightarrow> []
      | Some (l # ls') \<Rightarrow> ''{'' @ join_comma (map render_label (l # ls')) @ ''}'')"

fun render_line :: "line \<Rightarrow> string" where
  "render_line (Help_line n d) = ''# HELP '' @ n @ '' '' @ d"
| "render_line (Type_line n k) = ''# TYPE '' @ n @ '' '' @ (case k of gauge \<Rightarrow> ''gauge'' | counter \<Rightarrow> ''counter'')"
| "render_line (Sample_line m) = Name m @ render_labels (Labels m) @ '' '' @ show_int64 (Value m)"

definition Print :: "Metric list \<Rightarrow> string" where
  "Print ms = concat (map (\<lambda>l. render_line l @ [CHR 0x0A]) (Print_lines ms))"

section \<open>The handler\<close>

text \<open>
  What \<^verbatim>\<open>Get\<close> writes: the status, the headers it sets itself, the body. A handler
  that writes a body without setting a status answers 200.
\<close>

record Response =
  status :: nat
  header :: "(string \<times> string) list"
  body :: string

definition Get :: "MetricsHandler \<Rightarrow> User option \<Rightarrow> Response \<times> call list" where
  "Get h reqUser0 =
    (case reqUser0 of
       None \<Rightarrow> (\<lparr>status = StatusUnauthorized, header = [], body = ErrUnauthorized\<rparr>, [])
     | Some reqUser \<Rightarrow>
    (let metrics = []
     in case getUserMetrics h reqUser of
          (Inl err, c1) \<Rightarrow>
            (\<lparr>status = StatusInternalServerError, header = [], body = ErrInternalServerError\<rparr>, c1)
        | (Inr userMetrics, c1) \<Rightarrow>
    (let metrics = foldl (\<lambda>metrics m. metrics @ [m]) metrics userMetrics
     in case (if IsAdmin reqUser
              then (case getAdminMetrics h reqUser of
                      (Inl err, c2) \<Rightarrow> (Inl err, c2)
                    | (Inr adminMetrics, c2) \<Rightarrow>
                        (Inr (foldl (\<lambda>metrics m. metrics @ [m]) metrics adminMetrics), c2))
              else (Inr metrics, [])) of
          (Inl err, c2) \<Rightarrow>
            (\<lparr>status = StatusInternalServerError, header = [], body = ErrInternalServerError\<rparr>,
             c1 @ c2)
        | (Inr metrics, c2) \<Rightarrow>
            (\<lparr>status = StatusOK,
              header = [(''content-type'', ''text/plain; charset=utf-8'')],
              body = Print (sort_Sort h metrics)\<rparr>,
             c1 @ c2))))"

section \<open>Closed forms of the two collectors\<close>

text \<open>
  The metric list that \<open>getUserMetrics\<close> returns when its three service calls succeed,
  written without the loops, and the same for \<open>getAdminMetrics\<close>. The lemmas below show
  that the functions above compute exactly these lists.
\<close>

definition breakdown_row :: "MetricsHandler \<Rightarrow> Summary \<Rightarrow> string \<Rightarrow> string \<Rightarrow> SummaryType \<Rightarrow> SummaryItem \<Rightarrow> Metric" where
  "breakdown_row h s sfx desc t i =
     GaugeMetric (MetricsPrefix @ sfx) desc
       (Duration_Seconds h (Summary_TotalTimeByKey h s t (item_Key i)))
       (Some [Label ''name'' (item_Key i)])"

definition queue_rows :: "QueueMetrics \<Rightarrow> Metric list" where
  "queue_rows qm =
     [GaugeMetric (MetricsPrefix @ ''_queue_jobs_enqueued'')
        DescJobQueueEnqueued (EnqueuedJobs qm) (Some [Label ''queue'' (Queue qm)]),
      CounterMetric (MetricsPrefix @ ''_queue_jobs_total_finished'')
        DescJobQueueTotalFinished (FinishedJobs qm) (Some [Label ''queue'' (Queue qm)])]"

definition user_rows :: "MetricsHandler \<Rightarrow> Summary \<Rightarrow> Summary \<Rightarrow> int64 \<Rightarrow> Metric list" where
  "user_rows h summaryAllTime summaryToday heartbeatCount =
     [GaugeMetric (MetricsPrefix @ ''_cumulative_seconds_total'')
        DescAllTime (NewAllTimeFrom_TotalSeconds h summaryAllTime) (Some []),
      GaugeMetric (MetricsPrefix @ ''_seconds_total'')
        DescTotal (Duration_Seconds h (Summary_TotalTime h summaryToday)) (Some []),
      GaugeMetric (MetricsPrefix @ ''_heartbeats_total'')
        DescHeartbeats heartbeatCount (Some [])]
     @ map (breakdown_row h summaryToday ''_project_seconds_total'' DescProjects SummaryProject)
         (Projects summaryToday)
     @ map (breakdown_row h summaryToday ''_language_seconds_total'' DescLanguages SummaryLanguage)
         (Languages summaryToday)
     @ map (breakdown_row h summaryToday ''_editor_seconds_total'' DescEditors SummaryEditor)
         (Editors summaryToday)
     @ map (breakdown_row h summaryToday ''_operating_system_seconds_total'' DescOperatingSystems SummaryOS)
         (OperatingSystems summaryToday)
     @ map (breakdown_row h summaryToday ''_machine_seconds_total'' DescMachines SummaryMachine)
         (Machines summaryToday)
     @ map (breakdown_row h summaryToday ''_label_seconds_total'' DescLabels SummaryLabel)
         (SummaryLabels summaryToday)
     @ [GaugeMetric (MetricsPrefix @ ''_goroutines_total'')
          DescGoroutines (runtime_NumGoroutine h) (Some []),
        GaugeMetric (MetricsPrefix @ ''_mem_alloc_total'')
          DescMemAllocTotal (Alloc (runtime_ReadMemStats h)) (Some []),
        GaugeMetric (MetricsPrefix @ ''_mem_sys_total'')
          DescMemSysTotal (Sys (runtime_ReadMemStats h)) (Some []),
        CounterMetric (MetricsPrefix @ ''_paused_total'')
          DescPausedTotal (PauseTotalNs (runtime_ReadMemStats h)) (Some []),
        CounterMetric (MetricsPrefix @ ''_num_gc_total'')
          DescNumGCTotal (ucast (NumGC (runtime_ReadMemStats h))) (Some []),
        GaugeMetric (MetricsPrefix @ ''_db_total_bytes'')
          DescDatabaseSize (fst (metricsRepo_GetDatabaseSize h)) (Some [])]
     @ concat (map queue_rows (conf_GetQueueMetrics h))"

definition user_calls :: "MetricsHandler \<Rightarrow> User \<Rightarrow> call list" where
  "user_calls h user =
     [Call_Aliased zero_Time (time_Now h) user,
      Call_Aliased (fst (helpers_MustResolveIntervalRawTZ_today h user))
        (snd (helpers_MustResolveIntervalRawTZ_today h user)) user,
      Call_CountByUser user,
      Call_ReadMemStats, Call_NumGoroutine, Call_GetDatabaseSize, Call_GetQueueMetrics]"

text \<open>The value of the cached total time, as the code reads it.\<close>

definition latest_total_seconds :: "MetricsHandler \<Rightarrow> int64" where
  "latest_total_seconds h =
     (case keyValueSrvc_GetString h KeyLatestTotalTime of
        (Some t, None) \<Rightarrow>
           if kv_Value t \<noteq> []
           then (case time_ParseDuration h (kv_Value t) of
                   Inr d \<Rightarrow> Duration_Seconds h d
                 | Inl err \<Rightarrow> 0)
           else 0
      | _ \<Rightarrow> 0)"

definition any_from :: "MetricsHandler \<Rightarrow> Time" where
  "any_from h = fst (helpers_ResolveIntervalTZ_any h)"

definition any_to :: "MetricsHandler \<Rightarrow> Time" where
  "any_to h = time_Truncate_Hour h (snd (helpers_ResolveIntervalTZ_any h))"

definition heartbeat_row :: "CountByUser \<Rightarrow> Metric" where
  "heartbeat_row uc =
     GaugeMetric (MetricsPrefix @ ''_admin_user_heartbeats_total'')
       DescAdminUserHeartbeats (uc_Count uc) (Some [Label ''user'' (uc_User uc)])"

definition time_row :: "MetricsHandler \<Rightarrow> User \<Rightarrow> Summary \<Rightarrow> Metric" where
  "time_row h u summary =
     GaugeMetric (MetricsPrefix @ ''_admin_user_time_seconds_total'')
       DescAdminUserTime (Duration_Seconds h (Summary_TotalTime h summary))
       (Some [Label ''user'' (ID u)])"

definition task_rows :: "MetricsHandler \<Rightarrow> User list \<Rightarrow> nat \<Rightarrow> Metric list" where
  "task_rows h activeUsers i =
     (if i < length activeUsers then
        (case summarySrvc_Aliased h (any_from h) (any_to h) (activeUsers ! i) of
           Inl err \<Rightarrow> []
         | Inr summary \<Rightarrow> [time_row h (activeUsers ! i) summary])
      else [])"

definition admin_scalars :: "MetricsHandler \<Rightarrow> User list \<Rightarrow> Metric list" where
  "admin_scalars h activeUsers =
     [GaugeMetric (MetricsPrefix @ ''_admin_seconds_total'')
        DescAdminTotalTime (latest_total_seconds h) (Some []),
      GaugeMetric (MetricsPrefix @ ''_admin_heartbeats_total'')
        DescAdminTotalHeartbeats (fst (heartbeatSrvc_Count h True)) (Some []),
      GaugeMetric (MetricsPrefix @ ''_admin_users_total'')
        DescAdminTotalUsers (fst (userSrvc_Count h)) (Some []),
      GaugeMetric (MetricsPrefix @ ''_admin_users_active_total'')
        DescAdminActiveUsers (of_nat (length activeUsers)) (Some [])]"

definition admin_rows :: "MetricsHandler \<Rightarrow> User list \<Rightarrow> CountByUser list \<Rightarrow> Metric list" where
  "admin_rows h activeUsers userCounts =
     admin_scalars h activeUsers
     @ map heartbeat_row userCounts
     @ concat (map (task_rows h activeUsers) (pool_order h (length activeUsers)))"

definition admin_calls :: "MetricsHandler \<Rightarrow> call list" where
  "admin_calls h =
     [Call_GetString KeyLatestTotalTime, Call_UserCount, Call_HeartbeatCount True,
      Call_GetActive False]"

definition task_calls :: "MetricsHandler \<Rightarrow> User list \<Rightarrow> call list" where
  "task_calls h activeUsers =
     map (\<lambda>i. Call_Aliased (any_from h) (any_to h) (activeUsers ! i))
       (filter (\<lambda>i. i < length activeUsers) (pool_order h (length activeUsers)))"

text \<open>A metric is admin-scoped when its name starts with the admin prefix.\<close>

definition admin_scoped :: "Metric \<Rightarrow> bool" where
  "admin_scoped m \<longleftrightarrow> prefix (MetricsPrefix @ ''_admin_'') (Name m)"

text \<open>The shape every metric of the two collectors has.\<close>

definition well_formed :: "Metric \<Rightarrow> bool" where
  "well_formed m \<longleftrightarrow>
     prefix ''wakatime_'' (Name m) \<and>
     (case Labels m of
        None \<Rightarrow> False
      | Some ls \<Rightarrow> length ls \<le> 1 \<and> list_all (\<lambda>l. label_Key l \<in> {''name'', ''user'', ''queue''}) ls)"

text \<open>The sample lines of a rendered list, and the metric name a line is about.\<close>

fun sample_of :: "line \<Rightarrow> Metric list" where
  "sample_of (Sample_line m) = [m]"
| "sample_of (Help_line n d) = []"
| "sample_of (Type_line n k) = []"

definition samples :: "line list \<Rightarrow> Metric list" where
  "samples ls = concat (map sample_of ls)"

fun line_name :: "line \<Rightarrow> string" where
  "line_name (Help_line n d) = n"
| "line_name (Type_line n k) = n"
| "line_name (Sample_line m) = Name m"

text \<open>What one task of the pool contributes, as a function of the user it is for.\<close>

definition rows_of_user :: "MetricsHandler \<Rightarrow> User \<Rightarrow> Metric list" where
  "rows_of_user h u =
     (case summarySrvc_Aliased h (any_from h) (any_to h) u of
        Inl err \<Rightarrow> []
      | Inr summary \<Rightarrow> [time_row h u summary])"

text \<open>The metrics of a list grouped by name, for a given list of names.\<close>

definition groups :: "Metric list \<Rightarrow> string list \<Rightarrow> Metric list" where
  "groups ms ns = concat (map (\<lambda>n. filter (\<lambda>m. Name m = n) ms) ns)"

section \<open>The two responses with a fixed body\<close>

definition unauthorized_response :: Response where
  "unauthorized_response = \<lparr>status = 401, header = [], body = ''401 unauthorized''\<rparr>"

definition error_response :: Response where
  "error_response = \<lparr>status = 500, header = [], body = ''500 internal server error''\<rparr>"

definition ok_response :: "string \<Rightarrow> Response" where
  "ok_response b =
     \<lparr>status = 200, header = [(''content-type'', ''text/plain; charset=utf-8'')], body = b\<rparr>"

section \<open>A concrete instance\<close>

text \<open>
  Three users, one summary and a set of collaborators, to run the handler on. The summary
  service knows nothing about \<open>bob\<close>; every other call succeeds. The pool finishes its
  tasks in reverse order of submission, and the slice is sorted by insertion.
\<close>

definition alice :: User where
  "alice = \<lparr>ID = ''alice'', IsAdmin = True\<rparr>"

definition bob :: User where
  "bob = \<lparr>ID = ''bob'', IsAdmin = False\<rparr>"

definition carol :: User where
  "carol = \<lparr>ID = ''carol'', IsAdmin = False\<rparr>"

definition demo_summary :: Summary where
  "demo_summary =
     \<lparr>Projects = [\<lparr>item_Key = ''wakapi'', item_Total = 5\<rparr>],
      Languages = [\<lparr>item_Key = ''rust'', item_Total = 2\<rparr>, \<lparr>item_Key = ''go'', item_Total = 3\<rparr>],
      Editors = [], OperatingSystems = [], Machines = [], SummaryLabels = []\<rparr>"

definition items_of :: "Summary \<Rightarrow> SummaryType \<Rightarrow> SummaryItem list" where
  "items_of s t =
     (case t of
        SummaryProject \<Rightarrow> Projects s
      | SummaryLanguage \<Rightarrow> Languages s
      | SummaryEditor \<Rightarrow> Editors s
      | SummaryOS \<Rightarrow> OperatingSystems s
      | SummaryMachine \<Rightarrow> Machines s
      | SummaryLabel \<Rightarrow> SummaryLabels s)"

definition demo_handler :: MetricsHandler where
  "demo_handler =
     \<lparr>summarySrvc_Aliased =
        (\<lambda>from to u. if ID u = ''bob'' then Inl (Error ''no summary'') else Inr demo_summary),
      heartbeatSrvc_CountByUser = (\<lambda>u. Inr 7),
      heartbeatSrvc_Count = (\<lambda>b. (100, None)),
      heartbeatSrvc_CountByUsers =
        (\<lambda>us. Inr (map (\<lambda>u. \<lparr>uc_User = ID u, uc_Count = 3\<rparr>) us)),
      userSrvc_Count = (5, None),
      userSrvc_GetActive = (\<lambda>b. Inr [alice, bob]),
      keyValueSrvc_GetString = (\<lambda>k. (Some \<lparr>kv_Key = k, kv_Value = ''1h''\<rparr>, None)),
      metricsRepo_GetDatabaseSize = (4096, None),
      conf_GetQueueMetrics = [\<lparr>Queue = ''wakapi.default'', EnqueuedJobs = 1, FinishedJobs = 9\<rparr>],
      runtime_ReadMemStats = \<lparr>Alloc = 10, Sys = 20, PauseTotalNs = 30, NumGC = 4\<rparr>,
      runtime_NumGoroutine = 12,
      time_Now = 1000,
      time_Truncate_Hour = (\<lambda>t. t - t mod 3600),
      time_ParseDuration =
        (\<lambda>s. if s = ''1h'' then Inr 3600000000000 else Inl (Error ''invalid duration'')),
      helpers_MustResolveIntervalRawTZ_today = (\<lambda>u. (0, 86400)),
      helpers_ResolveIntervalTZ_any = (0, 1000),
      Duration_Seconds = (\<lambda>d. d div 1000000000),
      Summary_TotalTime = (\<lambda>s. 1000000000 * sum_list (map item_Total (Projects s))),
      Summary_TotalTimeByKey =
        (\<lambda>s t k. 1000000000 * sum_list (map item_Total (filter (\<lambda>i. item_Key i = k) (items_of s t)))),
      NewAllTimeFrom_TotalSeconds = (\<lambda>s. sum_list (map item_Total (Projects s))),
      pool_order = (\<lambda>n. rev [0..<n]),
      sort_Sort = sort_key Metric_Key\<rparr>"

text \<open>The same instance with one collaborator failing.\<close>

definition db_fail_handler :: MetricsHandler where
  "db_fail_handler =
     demo_handler\<lparr>metricsRepo_GetDatabaseSize := (0, Some (Error ''database is locked''))\<rparr>"

definition count_fail_handler :: MetricsHandler where
  "count_fail_handler =
     demo_handler\<lparr>heartbeatSrvc_CountByUser := (\<lambda>u. Inl (Error ''connection refused''))\<rparr>"

definition scalar_fail_handler :: MetricsHandler where
  "scalar_fail_handler =
     demo_handler\<lparr>keyValueSrvc_GetString := (\<lambda>k. (None, Some (Error ''record not found''))),
                  userSrvc_Count := (0, Some (Error ''connection refused'')),
                  heartbeatSrvc_Count := (\<lambda>b. (0, Some (Error ''connection refused'')))\<rparr>"

definition active_fail_handler :: MetricsHandler where
  "active_fail_handler =
     demo_handler\<lparr>userSrvc_GetActive := (\<lambda>b. Inl (Error ''connection refused''))\<rparr>"

definition bad_duration_handler :: MetricsHandler where
  "bad_duration_handler =
     demo_handler\<lparr>keyValueSrvc_GetString :=
       (\<lambda>k. (Some \<lparr>kv_Key = k, kv_Value = ''soon''\<rparr>, None))\<rparr>"

definition no_counts_handler :: MetricsHandler where
  "no_counts_handler =
     demo_handler\<lparr>heartbeatSrvc_CountByUsers :=
       (\<lambda>us. Inr [\<lparr>uc_User = ''alice'', uc_Count = 3\<rparr>])\<rparr>"

definition counts_fail_handler :: MetricsHandler where
  "counts_fail_handler =
     demo_handler\<lparr>heartbeatSrvc_CountByUsers := (\<lambda>us. Inl (Error ''connection refused''))\<rparr>"


section \<open>Lemmas about the loops\<close>

lemma foldl_append_one: "foldl (\<lambda>ms x. ms @ [f x]) acc xs = acc @ map f xs"
  by (induction xs arbitrary: acc) simp_all

lemma foldl_append_rows: "foldl (\<lambda>ms x. ms @ f x) acc xs = acc @ concat (map f xs)"
  by (induction xs arbitrary: acc) simp_all

lemma foldl_append_two:
  "foldl (\<lambda>ms x. ms @ [f x, g x]) acc xs = acc @ concat (map (\<lambda>x. [f x, g x]) xs)"
  by (rule foldl_append_rows)

lemma foldl_copy: "foldl (\<lambda>ms m. ms @ [m]) acc xs = acc @ xs"
  by (induction xs arbitrary: acc) simp_all

lemma total_time_task_rows:
  "total_time_task h (any_from h) (any_to h) activeUsers acc i = acc @ task_rows h activeUsers i"
  by (simp add: total_time_task_def task_rows_def time_row_def split: sum.splits)

lemma foldl_total_time_task:
  "foldl (total_time_task h (any_from h) (any_to h) activeUsers) acc order
     = acc @ concat (map (task_rows h activeUsers) order)"
  by (induction order arbitrary: acc) (simp_all add: total_time_task_rows)

section \<open>The collectors in closed form\<close>

lemma getUserMetrics_eq:
  "getUserMetrics h user =
    (case summarySrvc_Aliased h zero_Time (time_Now h) user of
       Inl err \<Rightarrow> (Inl err, take 1 (user_calls h user))
     | Inr summaryAllTime \<Rightarrow>
    (case summarySrvc_Aliased h (fst (helpers_MustResolveIntervalRawTZ_today h user))
            (snd (helpers_MustResolveIntervalRawTZ_today h user)) user of
       Inl err \<Rightarrow> (Inl err, take 2 (user_calls h user))
     | Inr summaryToday \<Rightarrow>
    (case heartbeatSrvc_CountByUser h user of
       Inl err \<Rightarrow> (Inl err, take 3 (user_calls h user))
     | Inr heartbeatCount \<Rightarrow>
         (Inr (user_rows h summaryAllTime summaryToday heartbeatCount), user_calls h user))))"
  by (simp add: getUserMetrics_def user_rows_def user_calls_def breakdown_row_def [abs_def]
      queue_rows_def [abs_def] foldl_append_one foldl_append_two Let_def case_prod_beta
      split: sum.splits)

lemma getAdminMetrics_eq:
  "getAdminMetrics h user =
    (if \<not> IsAdmin user then (Inl (Error ''unauthorized''), [])
     else case userSrvc_GetActive h False of
       Inl err \<Rightarrow> (Inl err, admin_calls h)
     | Inr activeUsers \<Rightarrow>
    (case heartbeatSrvc_CountByUsers h activeUsers of
       Inl err \<Rightarrow> (Inl err, admin_calls h @ [Call_CountByUsers activeUsers])
     | Inr userCounts \<Rightarrow>
         (Inr (admin_rows h activeUsers userCounts),
          admin_calls h @ [Call_CountByUsers activeUsers] @ task_calls h activeUsers)))"
  by (simp add: getAdminMetrics_def admin_rows_def admin_scalars_def admin_calls_def
      task_calls_def heartbeat_row_def [abs_def] latest_total_seconds_def foldl_append_one
      foldl_total_time_task [unfolded any_from_def any_to_def] any_from_def any_to_def Let_def
      case_prod_beta split: sum.splits)

section \<open>The handler in closed form\<close>

lemma Get_None_eq: "Get h None = (unauthorized_response, [])"
  by (simp add: Get_def unauthorized_response_def StatusUnauthorized_def ErrUnauthorized_def)

lemma Get_Some_eq:
  "Get h (Some user) =
    (case getUserMetrics h user of
       (Inl err, c1) \<Rightarrow> (error_response, c1)
     | (Inr userMetrics, c1) \<Rightarrow>
         if IsAdmin user
         then (case getAdminMetrics h user of
                 (Inl err, c2) \<Rightarrow> (error_response, c1 @ c2)
               | (Inr adminMetrics, c2) \<Rightarrow>
                   (ok_response (Print (sort_Sort h (userMetrics @ adminMetrics))), c1 @ c2))
         else (ok_response (Print (sort_Sort h userMetrics)), c1))"
  by (simp add: Get_def error_response_def ok_response_def StatusInternalServerError_def
      ErrInternalServerError_def StatusOK_def foldl_copy Let_def
      split: prod.splits sum.splits)

section \<open>Names and shapes of the rows\<close>

lemma user_rows_not_admin_scoped:
  "m \<in> set (user_rows h summaryAllTime summaryToday heartbeatCount) \<Longrightarrow> \<not> admin_scoped m"
  by (auto simp: user_rows_def breakdown_row_def queue_rows_def admin_scoped_def MetricsPrefix_def)

lemma user_rows_well_formed:
  "m \<in> set (user_rows h summaryAllTime summaryToday heartbeatCount) \<Longrightarrow> well_formed m"
  by (auto simp: user_rows_def breakdown_row_def queue_rows_def well_formed_def MetricsPrefix_def)

lemma task_rows_cases:
  "task_rows h activeUsers i = [] \<or>
   (\<exists>summary. i < length activeUsers \<and>
      summarySrvc_Aliased h (any_from h) (any_to h) (activeUsers ! i) = Inr summary \<and>
      task_rows h activeUsers i = [time_row h (activeUsers ! i) summary])"
proof (cases "i < length activeUsers")
  case True
  then show ?thesis
    by (cases "summarySrvc_Aliased h (any_from h) (any_to h) (activeUsers ! i)")
      (simp_all add: task_rows_def)
next
  case False
  then show ?thesis
    by (simp add: task_rows_def)
qed

lemma task_rows_well_formed: "m \<in> set (task_rows h activeUsers i) \<Longrightarrow> well_formed m"
  using task_rows_cases [of h activeUsers i]
  by (auto simp: time_row_def well_formed_def MetricsPrefix_def)

lemma admin_rows_well_formed:
  "m \<in> set (admin_rows h activeUsers userCounts) \<Longrightarrow> well_formed m"
  by (auto simp: admin_rows_def admin_scalars_def heartbeat_row_def well_formed_def
      MetricsPrefix_def dest: task_rows_well_formed [unfolded well_formed_def MetricsPrefix_def])

lemma getUserMetrics_Inr:
  assumes "fst (getUserMetrics h user) = Inr ms"
  shows "\<exists>summaryAllTime summaryToday heartbeatCount.
           summarySrvc_Aliased h zero_Time (time_Now h) user = Inr summaryAllTime \<and>
           summarySrvc_Aliased h (fst (helpers_MustResolveIntervalRawTZ_today h user))
             (snd (helpers_MustResolveIntervalRawTZ_today h user)) user = Inr summaryToday \<and>
           heartbeatSrvc_CountByUser h user = Inr heartbeatCount \<and>
           ms = user_rows h summaryAllTime summaryToday heartbeatCount \<and>
           getUserMetrics h user = (Inr ms, user_calls h user)"
  using assms by (auto simp: getUserMetrics_eq split: sum.splits)

lemma getAdminMetrics_Inr:
  assumes "fst (getAdminMetrics h user) = Inr ms"
  shows "\<exists>activeUsers userCounts.
           IsAdmin user \<and>
           userSrvc_GetActive h False = Inr activeUsers \<and>
           heartbeatSrvc_CountByUsers h activeUsers = Inr userCounts \<and>
           ms = admin_rows h activeUsers userCounts"
  using assms by (auto simp: getAdminMetrics_eq split: sum.splits if_splits)

lemma getUserMetrics_Inl_iff:
  "isl (fst (getUserMetrics h user)) \<longleftrightarrow>
     isl (summarySrvc_Aliased h zero_Time (time_Now h) user) \<or>
     isl (summarySrvc_Aliased h (fst (helpers_MustResolveIntervalRawTZ_today h user))
            (snd (helpers_MustResolveIntervalRawTZ_today h user)) user) \<or>
     isl (heartbeatSrvc_CountByUser h user)"
  by (simp add: getUserMetrics_eq split: sum.splits)

section \<open>The concrete instance, evaluated\<close>

lemma demo_sort_post: "sort_Sort_post xs (sort_key Metric_Key xs)"
proof -
  have "sorted (map Metric_Key (sort_key Metric_Key xs))"
    by (rule sorted_sort_key)
  then have "sorted_wrt (\<lambda>a b. Metric_Key a \<le> Metric_Key b) (sort_key Metric_Key xs)"
    by (simp add: sorted_map)
  then have "sorted_wrt (\<lambda>a b. \<not> Less b a) (sort_key Metric_Key xs)"
    by (simp add: Less_def not_less)
  then show ?thesis
    by (simp add: sort_Sort_post_def)
qed

lemma demo_user_metrics:
  "getUserMetrics demo_handler carol =
     (Inr (user_rows demo_handler demo_summary demo_summary 7), user_calls demo_handler carol)"
  by (simp add: getUserMetrics_eq demo_handler_def carol_def)

lemma demo_user_metrics_alice:
  "getUserMetrics demo_handler alice =
     (Inr (user_rows demo_handler demo_summary demo_summary 7), user_calls demo_handler alice)"
  by (simp add: getUserMetrics_eq demo_handler_def alice_def)

lemma demo_admin_metrics:
  "getAdminMetrics demo_handler alice =
     (Inr (admin_rows demo_handler [alice, bob]
             [\<lparr>uc_User = ''alice'', uc_Count = 3\<rparr>, \<lparr>uc_User = ''bob'', uc_Count = 3\<rparr>]),
      admin_calls demo_handler @ [Call_CountByUsers [alice, bob]]
        @ task_calls demo_handler [alice, bob])"
  by (simp add: getAdminMetrics_eq demo_handler_def alice_def bob_def)

lemma getAdminMetrics_Inl_iff:
  assumes "IsAdmin user"
  shows "isl (fst (getAdminMetrics h user)) \<longleftrightarrow>
           isl (userSrvc_GetActive h False) \<or>
           (\<exists>activeUsers. userSrvc_GetActive h False = Inr activeUsers \<and>
              isl (heartbeatSrvc_CountByUsers h activeUsers))"
  using assms by (auto simp: getAdminMetrics_eq split: sum.splits)

lemma task_rows_Name:
  "m \<in> set (task_rows h activeUsers i) \<Longrightarrow>
     Name m = MetricsPrefix @ ''_admin_user_time_seconds_total''"
  using task_rows_cases [of h activeUsers i] by (auto simp: time_row_def)

lemma filter_task_rows_other:
  assumes "n \<noteq> MetricsPrefix @ ''_admin_user_time_seconds_total''"
  shows "filter (\<lambda>m. Name m = n) (concat (map (task_rows h activeUsers) order)) = []"
  using assms by (auto simp: filter_empty_conv dest: task_rows_Name)

lemma filter_heartbeat_rows_other:
  assumes "n \<noteq> MetricsPrefix @ ''_admin_user_heartbeats_total''"
  shows "filter (\<lambda>m. Name m = n) (map heartbeat_row userCounts) = []"
  using assms by (auto simp: filter_empty_conv heartbeat_row_def)

lemma demo_bad_duration_metrics:
  "fst (getAdminMetrics bad_duration_handler alice) =
     Inr (admin_rows bad_duration_handler [alice, bob]
            [\<lparr>uc_User = ''alice'', uc_Count = 3\<rparr>, \<lparr>uc_User = ''bob'', uc_Count = 3\<rparr>])"
  by (simp add: getAdminMetrics_eq bad_duration_handler_def demo_handler_def alice_def bob_def)

section \<open>Rendering and the worker pool\<close>

lemma set_first_occurrences: "set (first_occurrences ns) = set ns"
  by (induction ns) auto

lemma distinct_first_occurrences: "distinct (first_occurrences ns)"
  by (induction ns) (auto simp: set_first_occurrences)

lemma samples_block: "samples (block ms n) = filter (\<lambda>m. Name m = n) ms"
  by (cases "filter (\<lambda>m. Name m = n) ms")
    (simp_all add: block_def samples_def comp_def)

lemma samples_append: "samples (xs @ ys) = samples xs @ samples ys"
  by (simp add: samples_def)

lemma samples_concat_blocks: "samples (concat (map (block ms) ns)) = groups ms ns"
  by (induction ns) (simp_all add: samples_append samples_block groups_def, simp add: samples_def)

lemma samples_Print_lines: "samples (Print_lines ms) = groups ms (distinct_names ms)"
  by (simp add: Print_lines_def samples_concat_blocks)

lemma groups_Cons_other:
  "Name y \<notin> set ns \<Longrightarrow> groups (y # ms) ns = groups ms ns"
  by (induction ns) (auto simp: groups_def)

lemma groups_absent:
  "n \<notin> Name ` set ms \<Longrightarrow> filter (\<lambda>m. Name m = n) ms = []"
  by (auto simp: filter_empty_conv)

lemma groups_step:
  assumes "sorted (map Name ms)" and "\<forall>m \<in> set ms. a \<le> Name m"
  shows "filter (\<lambda>m. Name m = a) ms @ groups ms (filter (\<lambda>k. k \<noteq> a) (distinct_names ms))
           = groups ms (distinct_names ms)"
proof (cases ms)
  case Nil
  then show ?thesis by (simp add: groups_def distinct_names_def)
next
  case (Cons z zs)
  show ?thesis
  proof (cases "Name z = a")
    case True
    then show ?thesis
      by (simp add: Cons groups_def distinct_names_def)
  next
    case False
    with assms(2) Cons have "a < Name z" by auto
    with assms(1) Cons have "\<forall>m \<in> set ms. a < Name m" by auto
    then have absent: "a \<notin> Name ` set ms" by auto
    then have "a \<notin> set (distinct_names ms)"
      by (simp add: distinct_names_def set_first_occurrences)
    then have "filter (\<lambda>k. k \<noteq> a) (distinct_names ms) = distinct_names ms"
      by (auto simp: filter_id_conv)
    with absent show ?thesis
      by (simp add: groups_absent)
  qed
qed

lemma groups_sorted:
  "sorted (map Name ms) \<Longrightarrow> groups ms (distinct_names ms) = ms"
proof (induction ms)
  case Nil
  then show ?case by (simp add: groups_def distinct_names_def)
next
  case (Cons y ys)
  then have s: "sorted (map Name ys)" and lb: "\<forall>m \<in> set ys. Name y \<le> Name m"
    by auto
  have notin: "Name y \<notin> set (filter (\<lambda>k. k \<noteq> Name y) (distinct_names ys))"
    by simp
  have "groups (y # ys) (distinct_names (y # ys))
      = (y # filter (\<lambda>m. Name m = Name y) ys)
          @ groups (y # ys) (filter (\<lambda>k. k \<noteq> Name y) (distinct_names ys))"
    by (simp add: groups_def distinct_names_def)
  also have "\<dots> = y # (filter (\<lambda>m. Name m = Name y) ys
          @ groups ys (filter (\<lambda>k. k \<noteq> Name y) (distinct_names ys)))"
    using groups_Cons_other [OF notin] by simp
  also have "\<dots> = y # groups ys (distinct_names ys)"
    using groups_step [OF s lb] by simp
  also have "\<dots> = y # ys"
    using Cons.IH [OF s] by simp
  finally show ?case .
qed

lemma samples_Print_lines_sorted:
  "sorted (map Name ms) \<Longrightarrow> samples (Print_lines ms) = ms"
  by (simp add: samples_Print_lines groups_sorted)

lemma Less_sorted_Key:
  "sorted_wrt (\<lambda>a b. \<not> Less b a) ms \<longleftrightarrow> sorted (map Metric_Key ms)"
  by (simp add: sorted_map Less_def not_less)

lemma Key_sorted_Name:
  assumes "sorted (map Metric_Key ms)"
  shows "sorted (map Name ms)"
proof -
  from assms have "sorted_wrt (\<lambda>a b. Metric_Key a \<le> Metric_Key b) ms"
    by (simp add: sorted_map)
  then have "sorted_wrt (\<lambda>a b. Name a \<le> Name b) ms"
    by (rule sorted_wrt_mono_rel [rotated]) (auto simp: Metric_Key_def less_eq_prod_def)
  then show ?thesis
    by (simp add: sorted_map)
qed

lemma sort_Sort_post_iff:
  "sort_Sort_post xs ys \<longleftrightarrow> mset ys = mset xs \<and> sorted (map Metric_Key ys)"
  by (simp add: sort_Sort_post_def Less_sorted_Key)

lemma count_rows_perm:
  assumes "mset ys = mset xs"
  shows "length (filter P ys) = length (filter P xs)"
proof -
  from assms have "mset (filter P ys) = mset (filter P xs)"
    by simp
  then show ?thesis
    by (rule mset_eq_length)
qed

lemma task_rows_eq: "i < length activeUsers \<Longrightarrow> task_rows h activeUsers i = rows_of_user h (activeUsers ! i)"
  by (simp add: task_rows_def rows_of_user_def)

lemma mset_concat_map:
  "mset (concat (map f xs)) = sum_mset (image_mset (\<lambda>x. mset (f x)) (mset xs))"
  by (induction xs) simp_all

lemma mset_concat_map_perm:
  "mset xs = mset ys \<Longrightarrow> mset (concat (map f xs)) = mset (concat (map f ys))"
  by (simp add: mset_concat_map)

lemma task_rows_in_order:
  "concat (map (task_rows h activeUsers) [0..<length activeUsers])
     = concat (map (rows_of_user h) activeUsers)"
proof -
  have "map (task_rows h activeUsers) [0..<length activeUsers]
      = map (\<lambda>i. rows_of_user h (activeUsers ! i)) [0..<length activeUsers]"
    by (simp add: task_rows_eq)
  also have "\<dots> = map (rows_of_user h) (map (\<lambda>i. activeUsers ! i) [0..<length activeUsers])"
    by (simp add: comp_def)
  also have "\<dots> = map (rows_of_user h) activeUsers"
    by (simp add: map_nth)
  finally show ?thesis by simp
qed

lemma mset_task_rows:
  assumes "mset order = mset [0..<length activeUsers]"
  shows "mset (concat (map (task_rows h activeUsers) order))
           = mset (concat (map (rows_of_user h) activeUsers))"
  using mset_concat_map_perm [OF assms, of "task_rows h activeUsers"]
  by (simp add: task_rows_in_order)

lemma length_rows_of_users_add:
  "length (concat (map (rows_of_user h) us))
     + length (filter (\<lambda>u. isl (summarySrvc_Aliased h (any_from h) (any_to h) u)) us)
     = length us"
proof (induction us)
  case Nil
  then show ?case by simp
next
  case (Cons u us)
  then show ?case
    by (cases "summarySrvc_Aliased h (any_from h) (any_to h) u") (simp_all add: rows_of_user_def)
qed

lemma length_rows_of_users:
  "length (concat (map (rows_of_user h) us))
     = length us - length (filter (\<lambda>u. isl (summarySrvc_Aliased h (any_from h) (any_to h) u)) us)"
  using length_rows_of_users_add [of h us] by simp



lemma filter_user_rows_admin_name:
  assumes "prefix (MetricsPrefix @ ''_admin_'') n"
  shows "filter (\<lambda>m. Name m = n) (user_rows h summaryAllTime summaryToday heartbeatCount) = []"
  using assms user_rows_not_admin_scoped [of _ h summaryAllTime summaryToday heartbeatCount]
  by (auto simp: filter_empty_conv admin_scoped_def)

lemma filter_admin_rows_heartbeats:
  "filter (\<lambda>m. Name m = ''wakatime_admin_user_heartbeats_total'')
     (admin_rows h activeUsers userCounts) = map heartbeat_row userCounts"
proof -
  have "filter (\<lambda>m. Name m = ''wakatime_admin_user_heartbeats_total'')
      (map heartbeat_row userCounts) = map heartbeat_row userCounts"
    by (simp add: filter_id_conv heartbeat_row_def MetricsPrefix_def)
  then show ?thesis
    by (simp add: admin_rows_def admin_scalars_def filter_task_rows_other MetricsPrefix_def)
qed

lemma filter_admin_rows_time:
  "filter (\<lambda>m. Name m = ''wakatime_admin_user_time_seconds_total'')
     (admin_rows h activeUsers userCounts)
   = concat (map (task_rows h activeUsers) (pool_order h (length activeUsers)))"
proof -
  have "filter (\<lambda>m. Name m = ''wakatime_admin_user_time_seconds_total'')
      (concat (map (task_rows h activeUsers) (pool_order h (length activeUsers))))
      = concat (map (task_rows h activeUsers) (pool_order h (length activeUsers)))"
    unfolding filter_id_conv using task_rows_Name [of _ h activeUsers]
    by (auto simp: MetricsPrefix_def)
  then show ?thesis
    by (simp add: admin_rows_def admin_scalars_def filter_heartbeat_rows_other MetricsPrefix_def)
qed

lemma filter_admin_rows_active:
  "filter (\<lambda>m. Name m = ''wakatime_admin_users_active_total'')
     (admin_rows h activeUsers userCounts)
   = [GaugeMetric ''wakatime_admin_users_active_total'' DescAdminActiveUsers
        (of_nat (length activeUsers)) (Some [])]"
  by (simp add: admin_rows_def admin_scalars_def filter_heartbeat_rows_other
      filter_task_rows_other MetricsPrefix_def)

lemma filter_perm_singleton:
  assumes "mset ys = mset xs" and "filter P xs = [x]"
  shows "filter P ys = [x]"
proof -
  from assms(1) have "mset (filter P ys) = mset (filter P xs)"
    by simp
  also from assms(2) have "\<dots> = {#x#}"
    by (simp only: mset.simps)
  finally show ?thesis
    by (simp only: mset_single_iff)
qed

text \<open>
  The successful answer to an administrator: the rendered list is the sorted merge of the
  two segments, and its sample lines are that list.
\<close>

lemma Get_admin_ok:
  assumes "IsAdmin user"
    and "fst (getUserMetrics h user) = Inr userMetrics"
    and "fst (getAdminMetrics h user) = Inr adminMetrics"
    and "sort_Sort_post (userMetrics @ adminMetrics) (sort_Sort h (userMetrics @ adminMetrics))"
  shows "fst (Get h (Some user)) = ok_response (Print (sort_Sort h (userMetrics @ adminMetrics)))"
    and "samples (Print_lines (sort_Sort h (userMetrics @ adminMetrics)))
           = sort_Sort h (userMetrics @ adminMetrics)"
    and "mset (sort_Sort h (userMetrics @ adminMetrics)) = mset (userMetrics @ adminMetrics)"
    and "sorted (map Metric_Key (sort_Sort h (userMetrics @ adminMetrics)))"
proof -
  obtain c1 c2 where "getUserMetrics h user = (Inr userMetrics, c1)"
      and "getAdminMetrics h user = (Inr adminMetrics, c2)"
    using assms(2,3) by (cases "getUserMetrics h user", cases "getAdminMetrics h user") auto
  then show "fst (Get h (Some user)) = ok_response (Print (sort_Sort h (userMetrics @ adminMetrics)))"
    using assms(1) by (simp add: Get_Some_eq)
  from assms(4) show perm: "mset (sort_Sort h (userMetrics @ adminMetrics)) = mset (userMetrics @ adminMetrics)"
    and sorted: "sorted (map Metric_Key (sort_Sort h (userMetrics @ adminMetrics)))"
    by (simp_all add: sort_Sort_post_iff)
  from sorted show "samples (Print_lines (sort_Sort h (userMetrics @ adminMetrics)))
      = sort_Sort h (userMetrics @ adminMetrics)"
    by (intro samples_Print_lines_sorted Key_sorted_Name)
qed

lemma getAdminMetrics_ok:
  assumes "IsAdmin user"
    and "userSrvc_GetActive h False = Inr activeUsers"
    and "heartbeatSrvc_CountByUsers h activeUsers = Inr userCounts"
  shows "fst (getAdminMetrics h user) = Inr (admin_rows h activeUsers userCounts)"
  using assms by (simp add: getAdminMetrics_eq)

lemma demo_no_counts_metrics:
  "fst (getAdminMetrics no_counts_handler alice)
     = Inr (admin_rows no_counts_handler [alice, bob] [\<lparr>uc_User = ''alice'', uc_Count = 3\<rparr>])"
  by (simp add: getAdminMetrics_eq no_counts_handler_def demo_handler_def alice_def)

lemma demo_no_counts_user_metrics:
  "fst (getUserMetrics no_counts_handler alice)
     = Inr (user_rows no_counts_handler demo_summary demo_summary 7)"
  by (simp add: getUserMetrics_eq no_counts_handler_def demo_handler_def alice_def)

lemma filter_breakdown_other:
  assumes "n \<noteq> MetricsPrefix @ sfx"
  shows "filter (\<lambda>m. Name m = n) (map (breakdown_row h s sfx d t) items) = []"
  using assms by (auto simp: filter_empty_conv breakdown_row_def)

lemma filter_breakdown_same:
  "filter (\<lambda>m. Name m = MetricsPrefix @ sfx) (map (breakdown_row h s sfx d t) items)
     = map (breakdown_row h s sfx d t) items"
  by (auto simp: filter_id_conv breakdown_row_def)

lemma filter_queue_rows_other:
  assumes "n \<noteq> MetricsPrefix @ ''_queue_jobs_enqueued''"
    and "n \<noteq> MetricsPrefix @ ''_queue_jobs_total_finished''"
  shows "filter (\<lambda>m. Name m = n) (concat (map queue_rows qs)) = []"
  using assms by (auto simp: filter_empty_conv queue_rows_def)

lemma filter_user_rows_db:
  "filter (\<lambda>m. Name m = ''wakatime_db_total_bytes'')
     (user_rows h summaryAllTime summaryToday heartbeatCount)
   = [GaugeMetric ''wakatime_db_total_bytes'' DescDatabaseSize
        (fst (metricsRepo_GetDatabaseSize h)) (Some [])]"
  by (simp add: user_rows_def filter_breakdown_other filter_queue_rows_other MetricsPrefix_def)

lemma demo_db_fail_user_metrics:
  "fst (getUserMetrics db_fail_handler carol)
     = Inr (user_rows db_fail_handler demo_summary demo_summary 7)"
  by (simp add: getUserMetrics_eq db_fail_handler_def demo_handler_def carol_def)

lemma sint_of_nat_int64:
  assumes "n < 2 ^ 63"
  shows "sint (of_nat n :: int64) = int n"
proof -
  have "int n < 2 ^ 63"
    using assms by (simp flip: of_nat_less_iff)
  then have "signed_take_bit 63 (int n) = int n"
    by (intro signed_take_bit_int_eq_self) simp_all
  then show ?thesis
    by (simp add: signed_of_nat)
qed

lemma sorted_rows_admin_filter:
  assumes "fst (getUserMetrics h user) = Inr userMetrics"
    and "mset rows = mset (userMetrics @ adminMetrics)"
    and "prefix (MetricsPrefix @ ''_admin_'') n"
  shows "mset (filter (\<lambda>m. Name m = n) rows) = mset (filter (\<lambda>m. Name m = n) adminMetrics)"
proof -
  from assms(1) obtain sa st hc where "userMetrics = user_rows h sa st hc"
    using getUserMetrics_Inr by blast
  with assms(3) have none: "filter (\<lambda>m. Name m = n) userMetrics = []"
    by (simp add: filter_user_rows_admin_name)
  have "mset (filter (\<lambda>m. Name m = n) rows)
      = mset (filter (\<lambda>m. Name m = n) (userMetrics @ adminMetrics))"
    using assms(2) by simp
  with none show ?thesis
    by simp
qed


lemma length_time_rows:
  assumes "mset (pool_order h (length activeUsers)) = mset [0..<length activeUsers]"
  shows "length (filter (\<lambda>m. Name m = ''wakatime_admin_user_time_seconds_total'')
               (admin_rows h activeUsers userCounts))
           = length activeUsers
             - length (filter (\<lambda>u. isl (summarySrvc_Aliased h (any_from h) (any_to h) u)) activeUsers)"
  unfolding filter_admin_rows_time
  using mset_eq_length [OF mset_task_rows [OF assms]] by (simp add: length_rows_of_users)


lemma demo_sort_contract: "\<forall>xs. sort_Sort_post xs (sort_Sort demo_handler xs)"
  by (simp add: demo_handler_def demo_sort_post)

lemma demo_pool_order:
  "mset (pool_order demo_handler (length [alice, bob])) = mset [0..<length [alice, bob]]"
  by (simp add: demo_handler_def)

lemma demo_failures:
  "isl (summarySrvc_Aliased demo_handler (any_from demo_handler) (any_to demo_handler) bob)"
  "\<not> isl (summarySrvc_Aliased demo_handler (any_from demo_handler) (any_to demo_handler) alice)"
  by (simp_all add: demo_handler_def alice_def bob_def)

section \<open>Blocks of the rendered output\<close>

lemma admin_rows_admin_scoped:
  "m \<in> set (admin_rows h activeUsers userCounts) \<Longrightarrow> admin_scoped m"
  by (auto simp: admin_rows_def admin_scalars_def heartbeat_row_def admin_scoped_def
      MetricsPrefix_def dest: task_rows_Name [unfolded MetricsPrefix_def])

lemma filter_admin_rows_user_name:
  assumes "\<not> prefix (MetricsPrefix @ ''_admin_'') n"
  shows "filter (\<lambda>m. Name m = n) (admin_rows h activeUsers userCounts) = []"
  using assms admin_rows_admin_scoped [of _ h activeUsers userCounts]
  by (auto simp: filter_empty_conv admin_scoped_def)

lemma breakdown_row_key:
  "map (breakdown_row h s sfx d t) items
     = map (\<lambda>k. GaugeMetric (MetricsPrefix @ sfx) d
                  (Duration_Seconds h (Summary_TotalTimeByKey h s t k)) (Some [Label ''name'' k]))
         (map item_Key items)"
  by (simp add: breakdown_row_def)

lemma filter_user_rows_language:
  "filter (\<lambda>m. Name m = ''wakatime_language_seconds_total'')
     (user_rows h summaryAllTime summaryToday heartbeatCount)
   = map (\<lambda>k. GaugeMetric ''wakatime_language_seconds_total'' DescLanguages
                (Duration_Seconds h (Summary_TotalTimeByKey h summaryToday SummaryLanguage k))
                (Some [Label ''name'' k]))
       (map item_Key (Languages summaryToday))"
proof -
  have same: "filter (\<lambda>m. Name m = ''wakatime_language_seconds_total'')
      (map (breakdown_row h summaryToday ''_language_seconds_total'' DescLanguages SummaryLanguage)
         (Languages summaryToday))
      = map (breakdown_row h summaryToday ''_language_seconds_total'' DescLanguages SummaryLanguage)
         (Languages summaryToday)"
    using filter_breakdown_same [of "''_language_seconds_total''"]
    by (simp add: MetricsPrefix_def)
  show ?thesis
    by (simp add: user_rows_def filter_breakdown_other filter_queue_rows_other same
        MetricsPrefix_def [symmetric] flip: breakdown_row_key)
      (simp add: breakdown_row_def MetricsPrefix_def)
qed

lemma two_sorted_rows:
  assumes "mset zs = {#a, b#}" and "sorted (map f zs)" and "f a < f b"
  shows "zs = [a, b]"
proof -
  from assms(1) have "mset zs = mset [a, b]"
    by simp
  then have "length zs = 2"
    using mset_eq_length by fastforce
  then obtain x y where zs: "zs = [x, y]"
    by (cases zs; cases "tl zs") auto
  with assms(1) have "x = a \<and> y = b \<or> x = b \<and> y = a"
    by (auto simp: add_eq_conv_ex)
  with assms(2,3) zs show ?thesis
    by auto
qed

lemma line_name_block: "l \<in> set (block ms n) \<Longrightarrow> line_name l = n"
  by (cases "filter (\<lambda>m. Name m = n) ms") (auto simp: block_def dest: filter_eq_ConsD
      intro: filter_eq_ConsD)

lemma line_name_blocks:
  "l \<in> set (concat (map (block ms) ns)) \<Longrightarrow> line_name l \<in> set ns"
  by (auto dest: line_name_block)

lemma line_name_Print_lines:
  "l \<in> set (Print_lines ms) \<Longrightarrow> line_name l \<in> Name ` set ms"
  using line_name_blocks [of l ms "distinct_names ms"]
  by (simp add: Print_lines_def distinct_names_def set_first_occurrences)

lemma Print_lines_split:
  assumes "n \<in> Name ` set ms"
  shows "\<exists>before after.
           Print_lines ms = before @ block ms n @ after \<and>
           (\<forall>l \<in> set (before @ after). line_name l \<noteq> n)"
proof -
  from assms have "n \<in> set (distinct_names ms)"
    by (simp add: distinct_names_def set_first_occurrences)
  then obtain as bs where split: "distinct_names ms = as @ n # bs"
    by (auto dest: split_list)
  have "distinct (distinct_names ms)"
    by (simp add: distinct_names_def distinct_first_occurrences)
  with split have out: "n \<notin> set as" "n \<notin> set bs"
    by auto
  have "Print_lines ms = concat (map (block ms) as) @ block ms n @ concat (map (block ms) bs)"
    by (simp add: Print_lines_def split)
  moreover have "\<forall>l \<in> set (concat (map (block ms) as) @ concat (map (block ms) bs)).
      line_name l \<noteq> n"
    using out line_name_blocks [of _ ms as] line_name_blocks [of _ ms bs] by auto
  ultimately show ?thesis
    by blast
qed

lemma Get_ok:
  assumes "fst (getUserMetrics h user) = Inr userMetrics"
    and "if IsAdmin user then fst (getAdminMetrics h user) = Inr adminMetrics
         else adminMetrics = []"
  shows "fst (Get h (Some user)) = ok_response (Print (sort_Sort h (userMetrics @ adminMetrics)))"
proof -
  obtain c1 where u: "getUserMetrics h user = (Inr userMetrics, c1)"
    using assms(1) by (cases "getUserMetrics h user") auto
  show ?thesis
  proof (cases "IsAdmin user")
    case True
    with assms(2) obtain c2 where "getAdminMetrics h user = (Inr adminMetrics, c2)"
      by (cases "getAdminMetrics h user") auto
    with u True show ?thesis
      by (simp add: Get_Some_eq)
  next
    case False
    with assms(2) u show ?thesis
      by (simp add: Get_Some_eq)
  qed
qed

lemma demo_language_values:
  "Duration_Seconds demo_handler
     (Summary_TotalTimeByKey demo_handler demo_summary SummaryLanguage ''go'') = 3"
  "Duration_Seconds demo_handler
     (Summary_TotalTimeByKey demo_handler demo_summary SummaryLanguage ''rust'') = 2"
  by (simp_all add: demo_handler_def demo_summary_def items_of_def)

lemma demo_languages: "map item_Key (Languages demo_summary) = [''rust'', ''go'']"
  by (simp add: demo_summary_def)

lemma demo_today:
  "summarySrvc_Aliased demo_handler (fst (helpers_MustResolveIntervalRawTZ_today demo_handler carol))
     (snd (helpers_MustResolveIntervalRawTZ_today demo_handler carol)) carol = Inr demo_summary"
  by (simp add: demo_handler_def carol_def)

section \<open>Claims\<close>

text \<open>
  C6. A request without a principal is answered with status 401 and the body
  \<^verbatim>\<open>401 unauthorized\<close>, whatever the collaborators are, and no collaborator is called.
\<close>

theorem Get_without_principal:
  "Get h None = (\<lparr>status = 401, header = [], body = ''401 unauthorized''\<rparr>, [])"
  by (simp add: Get_None_eq unauthorized_response_def)

theorem Get_without_principal_witness:
  "Get demo_handler None = (\<lparr>status = 401, header = [], body = ''401 unauthorized''\<rparr>, [])"
  by (rule Get_without_principal)

text \<open>
  C8. Called for a user who is not an administrator, \<open>getAdminMetrics\<close> returns the
  error \<^verbatim>\<open>unauthorized\<close> and no metrics, without calling any collaborator. For such a
  principal \<open>Get\<close> is determined by \<open>getUserMetrics\<close> alone: its response and its calls
  are those of the user segment, and the metric set it sorts and renders holds no metric
  whose name starts with \<^verbatim>\<open>wakatime_admin_\<close>.
\<close>

theorem non_admin_gets_no_admin_metrics:
  assumes "\<not> IsAdmin user"
  shows "getAdminMetrics h user = (Inl (Error ''unauthorized''), [])
       \<and> Get h (Some user) =
           (case getUserMetrics h user of
              (Inl err, c) \<Rightarrow> (error_response, c)
            | (Inr userMetrics, c) \<Rightarrow> (ok_response (Print (sort_Sort h userMetrics)), c))
       \<and> (\<forall>userMetrics. fst (getUserMetrics h user) = Inr userMetrics \<longrightarrow>
             list_all (\<lambda>m. \<not> admin_scoped m) userMetrics
           \<and> (mset (sort_Sort h userMetrics) = mset userMetrics \<longrightarrow>
                list_all (\<lambda>m. \<not> admin_scoped m) (sort_Sort h userMetrics)))"
proof (intro conjI allI impI)
  show "getAdminMetrics h user = (Inl (Error ''unauthorized''), [])"
    using assms by (simp add: getAdminMetrics_eq)
  show "Get h (Some user) =
          (case getUserMetrics h user of
             (Inl err, c) \<Rightarrow> (error_response, c)
           | (Inr userMetrics, c) \<Rightarrow> (ok_response (Print (sort_Sort h userMetrics)), c))"
    using assms by (simp add: Get_Some_eq split: prod.splits sum.splits)
next
  fix userMetrics
  assume ok: "fst (getUserMetrics h user) = Inr userMetrics"
  then obtain sa st hc where rows: "userMetrics = user_rows h sa st hc"
    using getUserMetrics_Inr by blast
  then show plain: "list_all (\<lambda>m. \<not> admin_scoped m) userMetrics"
    by (simp add: list_all_iff user_rows_not_admin_scoped)
  assume "mset (sort_Sort h userMetrics) = mset userMetrics"
  then have "set (sort_Sort h userMetrics) = set userMetrics"
    by (rule mset_eq_setD)
  with plain show "list_all (\<lambda>m. \<not> admin_scoped m) (sort_Sort h userMetrics)"
    by (simp add: list_all_iff)
qed

theorem non_admin_gets_no_admin_metrics_witness:
  "\<not> IsAdmin carol
   \<and> getAdminMetrics demo_handler carol = (Inl (Error ''unauthorized''), [])
   \<and> Get demo_handler (Some carol) =
       (ok_response (Print (sort_Sort demo_handler
          (user_rows demo_handler demo_summary demo_summary 7))),
        user_calls demo_handler carol)
   \<and> list_all (\<lambda>m. \<not> admin_scoped m)
       (sort_Sort demo_handler (user_rows demo_handler demo_summary demo_summary 7))"
proof -
  have admin: "\<not> IsAdmin carol"
    by (simp add: carol_def)
  have perm: "mset (sort_Sort demo_handler (user_rows demo_handler demo_summary demo_summary 7))
        = mset (user_rows demo_handler demo_summary demo_summary 7)"
    by (simp add: demo_handler_def)
  show ?thesis
    using non_admin_gets_no_admin_metrics [OF admin, of demo_handler] perm admin
    by (simp add: demo_user_metrics)
qed

text \<open>
  C1 (as the code has it). \<open>getUserMetrics\<close> returns an error exactly when the all-time
  summary, today's summary or the heartbeat count fails, and then the handler answers 500
  with the body \<^verbatim>\<open>500 internal server error\<close> and nothing else. A failure of the
  database-size query does not end the request: every metric set that the function returns
  holds exactly one gauge \<^verbatim>\<open>wakatime_db_total_bytes\<close>, carrying the size that the query
  returned, the function returns the same with and without the error, and for a user who is
  not an administrator a successful \<open>getUserMetrics\<close> is answered with status 200.
\<close>

theorem user_phase_failure_aborts:
  "(isl (fst (getUserMetrics h user)) \<longleftrightarrow>
      isl (summarySrvc_Aliased h zero_Time (time_Now h) user) \<or>
      isl (summarySrvc_Aliased h (fst (helpers_MustResolveIntervalRawTZ_today h user))
             (snd (helpers_MustResolveIntervalRawTZ_today h user)) user) \<or>
      isl (heartbeatSrvc_CountByUser h user))
   \<and> (isl (fst (getUserMetrics h user)) \<longrightarrow>
        fst (Get h (Some user)) =
          \<lparr>status = 500, header = [], body = ''500 internal server error''\<rparr>)
   \<and> (\<forall>ms. fst (getUserMetrics h user) = Inr ms \<longrightarrow>
        filter (\<lambda>m. Name m = ''wakatime_db_total_bytes'') ms =
          [GaugeMetric ''wakatime_db_total_bytes'' DescDatabaseSize
             (fst (metricsRepo_GetDatabaseSize h)) (Some [])])
   \<and> (\<forall>ms. fst (getUserMetrics h user) = Inr ms \<longrightarrow> \<not> IsAdmin user \<longrightarrow>
        fst (Get h (Some user)) =
          \<lparr>status = 200, header = [(''content-type'', ''text/plain; charset=utf-8'')],
           body = Print (sort_Sort h ms)\<rparr>)
   \<and> getUserMetrics (h\<lparr>metricsRepo_GetDatabaseSize := (dbSize, Some err)\<rparr>) user
       = getUserMetrics (h\<lparr>metricsRepo_GetDatabaseSize := (dbSize, None)\<rparr>) user"
proof (intro conjI impI allI)
  show "isl (fst (getUserMetrics h user)) \<longleftrightarrow>
      isl (summarySrvc_Aliased h zero_Time (time_Now h) user) \<or>
      isl (summarySrvc_Aliased h (fst (helpers_MustResolveIntervalRawTZ_today h user))
             (snd (helpers_MustResolveIntervalRawTZ_today h user)) user) \<or>
      isl (heartbeatSrvc_CountByUser h user)"
    by (rule getUserMetrics_Inl_iff)
  show "getUserMetrics (h\<lparr>metricsRepo_GetDatabaseSize := (dbSize, Some err)\<rparr>) user
       = getUserMetrics (h\<lparr>metricsRepo_GetDatabaseSize := (dbSize, None)\<rparr>) user"
    by (simp add: getUserMetrics_eq user_rows_def user_calls_def breakdown_row_def [abs_def]
        split: sum.splits)
next
  assume "isl (fst (getUserMetrics h user))"
  then obtain e c where "getUserMetrics h user = (Inl e, c)"
    by (cases "getUserMetrics h user") (auto simp: isl_def)
  then show "fst (Get h (Some user)) =
          \<lparr>status = 500, header = [], body = ''500 internal server error''\<rparr>"
    by (simp add: Get_Some_eq error_response_def)
next
  fix ms
  assume "fst (getUserMetrics h user) = Inr ms"
  then obtain sa st hc where "ms = user_rows h sa st hc"
    using getUserMetrics_Inr by blast
  then show "filter (\<lambda>m. Name m = ''wakatime_db_total_bytes'') ms =
      [GaugeMetric ''wakatime_db_total_bytes'' DescDatabaseSize
         (fst (metricsRepo_GetDatabaseSize h)) (Some [])]"
    by (simp add: filter_user_rows_db)
next
  fix ms
  assume ok: "fst (getUserMetrics h user) = Inr ms" and plain: "\<not> IsAdmin user"
  from ok obtain c where "getUserMetrics h user = (Inr ms, c)"
    by (cases "getUserMetrics h user") simp
  with plain show "fst (Get h (Some user)) =
      \<lparr>status = 200, header = [(''content-type'', ''text/plain; charset=utf-8'')],
       body = Print (sort_Sort h ms)\<rparr>"
    by (simp add: Get_Some_eq ok_response_def)
qed

theorem user_phase_failure_aborts_witness:
  "isl (heartbeatSrvc_CountByUser count_fail_handler carol)
   \<and> isl (fst (getUserMetrics count_fail_handler carol))
   \<and> fst (Get count_fail_handler (Some carol)) =
       \<lparr>status = 500, header = [], body = ''500 internal server error''\<rparr>
   \<and> snd (metricsRepo_GetDatabaseSize db_fail_handler) = Some (Error ''database is locked'')
   \<and> fst (getUserMetrics db_fail_handler carol)
       = Inr (user_rows db_fail_handler demo_summary demo_summary 7)
   \<and> \<not> IsAdmin carol
   \<and> filter (\<lambda>m. Name m = ''wakatime_db_total_bytes'')
        (user_rows db_fail_handler demo_summary demo_summary 7)
       = [GaugeMetric ''wakatime_db_total_bytes'' DescDatabaseSize 0 (Some [])]
   \<and> fst (Get db_fail_handler (Some carol)) =
       \<lparr>status = 200, header = [(''content-type'', ''text/plain; charset=utf-8'')],
        body = Print (sort_Sort db_fail_handler
                 (user_rows db_fail_handler demo_summary demo_summary 7))\<rparr>"
proof -
  have fails: "isl (heartbeatSrvc_CountByUser count_fail_handler carol)"
    by (simp add: count_fail_handler_def)
  have db: "snd (metricsRepo_GetDatabaseSize db_fail_handler) = Some (Error ''database is locked'')"
    "fst (metricsRepo_GetDatabaseSize db_fail_handler) = 0"
    by (simp_all add: db_fail_handler_def)
  have run: "fst (getUserMetrics db_fail_handler carol)
      = Inr (user_rows db_fail_handler demo_summary demo_summary 7)"
    by (rule demo_db_fail_user_metrics)
  have plain: "\<not> IsAdmin carol"
    by (simp add: carol_def)
  show ?thesis
    using user_phase_failure_aborts [of count_fail_handler carol] fails
      user_phase_failure_aborts [of db_fail_handler carol] db run plain
    by simp
qed

theorem database_size_failure_counterexample:
  "snd (metricsRepo_GetDatabaseSize db_fail_handler) = Some (Error ''database is locked'')
   \<and> fst (getUserMetrics db_fail_handler carol)
       = Inr (user_rows db_fail_handler demo_summary demo_summary 7)
   \<and> status (fst (Get db_fail_handler (Some carol))) = 200"
  by (simp add: Get_Some_eq getUserMetrics_eq ok_response_def db_fail_handler_def
      demo_handler_def carol_def)

text \<open>
  C2 (as the code has it). For an administrator, \<open>getAdminMetrics\<close> returns an error
  exactly when the retrieval of the active users fails or the per-user heartbeat count that
  follows it fails; whenever it returns an error, no admin metrics are returned and the
  handler answers 500. The errors of the cached total time, of the total heartbeat count
  and of the total user count are dropped: on success the first three gauges carry the
  values that those calls returned, and the cached total time counts as 0 when its lookup
  returned an error.
\<close>

theorem admin_scalar_phase_failures:
  assumes "IsAdmin user"
  shows "(isl (fst (getAdminMetrics h user)) \<longleftrightarrow>
            isl (userSrvc_GetActive h False) \<or>
            (\<exists>activeUsers. userSrvc_GetActive h False = Inr activeUsers \<and>
               isl (heartbeatSrvc_CountByUsers h activeUsers)))
       \<and> (isl (userSrvc_GetActive h False) \<longrightarrow>
            fst (Get h (Some user)) =
              \<lparr>status = 500, header = [], body = ''500 internal server error''\<rparr>)
       \<and> (isl (fst (getAdminMetrics h user)) \<longrightarrow>
            fst (Get h (Some user)) =
              \<lparr>status = 500, header = [], body = ''500 internal server error''\<rparr>)
       \<and> (\<forall>ms. fst (getAdminMetrics h user) = Inr ms \<longrightarrow>
            take 3 ms =
              [GaugeMetric ''wakatime_admin_seconds_total'' DescAdminTotalTime
                 (latest_total_seconds h) (Some []),
               GaugeMetric ''wakatime_admin_heartbeats_total'' DescAdminTotalHeartbeats
                 (fst (heartbeatSrvc_Count h True)) (Some []),
               GaugeMetric ''wakatime_admin_users_total'' DescAdminTotalUsers
                 (fst (userSrvc_Count h)) (Some [])])
       \<and> (snd (keyValueSrvc_GetString h KeyLatestTotalTime) \<noteq> None \<longrightarrow>
            latest_total_seconds h = 0)"
proof (intro conjI allI impI)
  show iff: "isl (fst (getAdminMetrics h user)) \<longleftrightarrow>
            isl (userSrvc_GetActive h False) \<or>
            (\<exists>activeUsers. userSrvc_GetActive h False = Inr activeUsers \<and>
               isl (heartbeatSrvc_CountByUsers h activeUsers))"
    using assms by (rule getAdminMetrics_Inl_iff)
  show gen: "fst (Get h (Some user)) =
      \<lparr>status = 500, header = [], body = ''500 internal server error''\<rparr>"
    if "isl (fst (getAdminMetrics h user))"
  proof -
    from that obtain e c where "getAdminMetrics h user = (Inl e, c)"
      by (cases "getAdminMetrics h user") (auto simp: isl_def)
    then show ?thesis
      using assms by (simp add: Get_Some_eq error_response_def split: prod.splits sum.splits)
  qed
  show "fst (Get h (Some user)) =
      \<lparr>status = 500, header = [], body = ''500 internal server error''\<rparr>"
    if "isl (userSrvc_GetActive h False)"
    using that iff gen by simp
next
  fix ms
  assume "fst (getAdminMetrics h user) = Inr ms"
  then obtain activeUsers userCounts where "ms = admin_rows h activeUsers userCounts"
    using getAdminMetrics_Inr by blast
  then show "take 3 ms =
      [GaugeMetric ''wakatime_admin_seconds_total'' DescAdminTotalTime
         (latest_total_seconds h) (Some []),
       GaugeMetric ''wakatime_admin_heartbeats_total'' DescAdminTotalHeartbeats
         (fst (heartbeatSrvc_Count h True)) (Some []),
       GaugeMetric ''wakatime_admin_users_total'' DescAdminTotalUsers
         (fst (userSrvc_Count h)) (Some [])]"
    by (simp add: admin_rows_def admin_scalars_def MetricsPrefix_def)
next
  assume "snd (keyValueSrvc_GetString h KeyLatestTotalTime) \<noteq> None"
  then show "latest_total_seconds h = 0"
    by (cases "keyValueSrvc_GetString h KeyLatestTotalTime")
      (auto simp: latest_total_seconds_def split: option.splits)
qed

theorem admin_scalar_phase_failures_witness:
  "IsAdmin alice
   \<and> isl (userSrvc_GetActive active_fail_handler False)
   \<and> isl (fst (getAdminMetrics active_fail_handler alice))
   \<and> fst (Get active_fail_handler (Some alice)) =
       \<lparr>status = 500, header = [], body = ''500 internal server error''\<rparr>
   \<and> userSrvc_GetActive counts_fail_handler False = Inr [alice, bob]
   \<and> isl (heartbeatSrvc_CountByUsers counts_fail_handler [alice, bob])
   \<and> isl (fst (getAdminMetrics counts_fail_handler alice))
   \<and> fst (Get counts_fail_handler (Some alice)) =
       \<lparr>status = 500, header = [], body = ''500 internal server error''\<rparr>
   \<and> snd (keyValueSrvc_GetString scalar_fail_handler KeyLatestTotalTime) \<noteq> None
   \<and> latest_total_seconds scalar_fail_handler = 0"
proof -
  have admin: "IsAdmin alice"
    by (simp add: alice_def)
  have fails: "isl (userSrvc_GetActive active_fail_handler False)"
    by (simp add: active_fail_handler_def)
  have active: "userSrvc_GetActive counts_fail_handler False = Inr [alice, bob]"
    by (simp add: counts_fail_handler_def demo_handler_def)
  have counts: "isl (heartbeatSrvc_CountByUsers counts_fail_handler [alice, bob])"
    by (simp add: counts_fail_handler_def)
  have kv: "snd (keyValueSrvc_GetString scalar_fail_handler KeyLatestTotalTime) \<noteq> None"
    by (simp add: scalar_fail_handler_def)
  show ?thesis
    using admin_scalar_phase_failures [OF admin, of active_fail_handler]
      admin_scalar_phase_failures [OF admin, of counts_fail_handler]
      admin_scalar_phase_failures [OF admin, of scalar_fail_handler]
      admin fails active counts kv
    by simp
qed

theorem admin_scalar_failures_counterexample:
  "snd (keyValueSrvc_GetString scalar_fail_handler KeyLatestTotalTime)
     = Some (Error ''record not found'')
   \<and> snd (heartbeatSrvc_Count scalar_fail_handler True) = Some (Error ''connection refused'')
   \<and> snd (userSrvc_Count scalar_fail_handler) = Some (Error ''connection refused'')
   \<and> fst (getAdminMetrics scalar_fail_handler alice)
       = Inr (admin_rows scalar_fail_handler [alice, bob]
                [\<lparr>uc_User = ''alice'', uc_Count = 3\<rparr>, \<lparr>uc_User = ''bob'', uc_Count = 3\<rparr>])
   \<and> status (fst (Get scalar_fail_handler (Some alice))) = 200"
  by (simp add: Get_Some_eq getUserMetrics_eq getAdminMetrics_eq ok_response_def
      scalar_fail_handler_def demo_handler_def alice_def bob_def)

text \<open>
  C9. When the key-value lookup of the cached total time returns an error, returns no
  record, returns an empty value, or returns a value that does not parse as a duration,
  this alone never makes \<open>getAdminMetrics\<close> fail for an administrator: an error can only
  come from the later retrieval of the active users or of their heartbeat counts, and
  every metric set that the function returns holds exactly one gauge named
  \<^verbatim>\<open>wakatime_admin_seconds_total\<close>, with value 0.
\<close>

theorem cached_total_time_defaults_to_zero:
  assumes "IsAdmin user"
    and "snd (keyValueSrvc_GetString h KeyLatestTotalTime) \<noteq> None
       \<or> fst (keyValueSrvc_GetString h KeyLatestTotalTime) = None
       \<or> (\<exists>t. fst (keyValueSrvc_GetString h KeyLatestTotalTime) = Some t \<and>
             (kv_Value t = [] \<or> isl (time_ParseDuration h (kv_Value t))))"
  shows "(isl (fst (getAdminMetrics h user)) \<longrightarrow>
            isl (userSrvc_GetActive h False) \<or>
            (\<exists>activeUsers. userSrvc_GetActive h False = Inr activeUsers \<and>
               isl (heartbeatSrvc_CountByUsers h activeUsers)))
       \<and> (\<forall>ms. fst (getAdminMetrics h user) = Inr ms \<longrightarrow>
            filter (\<lambda>m. Name m = ''wakatime_admin_seconds_total'') ms =
              [GaugeMetric ''wakatime_admin_seconds_total'' DescAdminTotalTime 0 (Some [])])"
proof (intro conjI allI impI)
  assume "isl (fst (getAdminMetrics h user))"
  then show "isl (userSrvc_GetActive h False) \<or>
      (\<exists>activeUsers. userSrvc_GetActive h False = Inr activeUsers \<and>
         isl (heartbeatSrvc_CountByUsers h activeUsers))"
    using assms(1) by (simp add: getAdminMetrics_Inl_iff)
next
  fix ms
  assume "fst (getAdminMetrics h user) = Inr ms"
  then obtain activeUsers userCounts where ms: "ms = admin_rows h activeUsers userCounts"
    using getAdminMetrics_Inr by blast
  have zero: "latest_total_seconds h = 0"
    using assms(2)
    by (cases "keyValueSrvc_GetString h KeyLatestTotalTime")
      (auto simp: latest_total_seconds_def isl_def split: option.splits sum.splits)
  show "filter (\<lambda>m. Name m = ''wakatime_admin_seconds_total'') ms =
      [GaugeMetric ''wakatime_admin_seconds_total'' DescAdminTotalTime 0 (Some [])]"
    unfolding ms admin_rows_def
    by (simp add: filter_task_rows_other filter_heartbeat_rows_other zero admin_scalars_def
        MetricsPrefix_def)
qed

theorem cached_total_time_defaults_to_zero_witness:
  "IsAdmin alice
   \<and> fst (keyValueSrvc_GetString bad_duration_handler KeyLatestTotalTime)
       = Some \<lparr>kv_Key = KeyLatestTotalTime, kv_Value = ''soon''\<rparr>
   \<and> isl (time_ParseDuration bad_duration_handler ''soon'')
   \<and> filter (\<lambda>m. Name m = ''wakatime_admin_seconds_total'')
        (admin_rows bad_duration_handler [alice, bob]
           [\<lparr>uc_User = ''alice'', uc_Count = 3\<rparr>, \<lparr>uc_User = ''bob'', uc_Count = 3\<rparr>])
       = [GaugeMetric ''wakatime_admin_seconds_total'' DescAdminTotalTime 0 (Some [])]"
proof -
  have admin: "IsAdmin alice"
    by (simp add: alice_def)
  have kv: "fst (keyValueSrvc_GetString bad_duration_handler KeyLatestTotalTime)
       = Some \<lparr>kv_Key = KeyLatestTotalTime, kv_Value = ''soon''\<rparr>"
    by (simp add: bad_duration_handler_def)
  have bad: "isl (time_ParseDuration bad_duration_handler ''soon'')"
    by (simp add: bad_duration_handler_def demo_handler_def)
  from kv bad
  have pre: "snd (keyValueSrvc_GetString bad_duration_handler KeyLatestTotalTime) \<noteq> None
       \<or> fst (keyValueSrvc_GetString bad_duration_handler KeyLatestTotalTime) = None
       \<or> (\<exists>t. fst (keyValueSrvc_GetString bad_duration_handler KeyLatestTotalTime) = Some t \<and>
             (kv_Value t = [] \<or> isl (time_ParseDuration bad_duration_handler (kv_Value t))))"
    by simp
  show ?thesis
    using cached_total_time_defaults_to_zero [OF admin pre] admin kv bad
    by (simp add: demo_bad_duration_metrics)
qed

text \<open>
  C10. Every metric in a set returned by \<open>getUserMetrics\<close> or by \<open>getAdminMetrics\<close> has a
  name that starts with \<^verbatim>\<open>wakatime_\<close>, and its labels are a slice that is not nil and
  holds at most one label, whose key is \<^verbatim>\<open>name\<close>, \<^verbatim>\<open>user\<close> or \<^verbatim>\<open>queue\<close>.
\<close>

theorem collector_metrics_well_formed:
  assumes "fst (getUserMetrics h user) = Inr ms \<or> fst (getAdminMetrics h user) = Inr ms"
    and "m \<in> set ms"
  shows "prefix ''wakatime_'' (Name m)
       \<and> (\<exists>ls. Labels m = Some ls \<and> length ls \<le> 1 \<and>
            (\<forall>l \<in> set ls. label_Key l = ''name'' \<or> label_Key l = ''user'' \<or> label_Key l = ''queue''))"
proof -
  have "well_formed m"
    using assms getUserMetrics_Inr [of h user ms] getAdminMetrics_Inr [of h user ms]
    by (auto intro: user_rows_well_formed admin_rows_well_formed)
  then show ?thesis
    by (cases "Labels m") (auto simp: well_formed_def list_all_iff)
qed

theorem collector_metrics_well_formed_witness:
  "fst (getUserMetrics demo_handler carol)
     = Inr (user_rows demo_handler demo_summary demo_summary 7)
   \<and> GaugeMetric ''wakatime_language_seconds_total'' DescLanguages 3 (Some [Label ''name'' ''go''])
       \<in> set (user_rows demo_handler demo_summary demo_summary 7)
   \<and> prefix ''wakatime_'' ''wakatime_language_seconds_total''"
proof -
  have run: "fst (getUserMetrics demo_handler carol)
      = Inr (user_rows demo_handler demo_summary demo_summary 7)"
    by (simp add: demo_user_metrics)
  have mem: "GaugeMetric ''wakatime_language_seconds_total'' DescLanguages 3
        (Some [Label ''name'' ''go''])
      \<in> set (user_rows demo_handler demo_summary demo_summary 7)"
    by (simp add: user_rows_def breakdown_row_def demo_handler_def demo_summary_def
        items_of_def MetricsPrefix_def)
  show ?thesis
    using collector_metrics_well_formed [OF disjI1 [OF run] mem] run mem by simp
qed

text \<open>
  C7 (as the code has it). An administrator asks, the user segment succeeds, there are
  \<open>N\<close> active users, the batched heartbeat count returns the list \<open>userCounts\<close>, the
  pool runs each of the \<open>N\<close> tasks once, and \<^verbatim>\<open>sort.Sort\<close> meets its contract. Then the
  admin segment succeeds and the answer has status 200; the admin metrics and the sample
  lines of the answer hold one \<^verbatim>\<open>wakatime_admin_user_heartbeats_total\<close> row for each
  entry of \<open>userCounts\<close>, \<open>N - K\<close> rows \<^verbatim>\<open>wakatime_admin_user_time_seconds_total\<close>, where
  \<open>K\<close> is the number of active users whose summary request fails, and one gauge
  \<^verbatim>\<open>wakatime_admin_users_active_total\<close>, whose value is \<open>N\<close>.
\<close>

theorem admin_row_counts:
  assumes "IsAdmin user"
    and "fst (getUserMetrics h user) = Inr userMetrics"
    and "userSrvc_GetActive h False = Inr activeUsers"
    and "heartbeatSrvc_CountByUsers h activeUsers = Inr userCounts"
    and "mset (pool_order h (length activeUsers)) = mset [0..<length activeUsers]"
    and "\<forall>xs. sort_Sort_post xs (sort_Sort h xs)"
  shows "\<exists>adminMetrics.
      fst (getAdminMetrics h user) = Inr adminMetrics
    \<and> fst (Get h (Some user)) =
        \<lparr>status = 200, header = [(''content-type'', ''text/plain; charset=utf-8'')],
         body = Print (sort_Sort h (userMetrics @ adminMetrics))\<rparr>
    \<and> length (filter (\<lambda>m. Name m = ''wakatime_admin_user_heartbeats_total'') adminMetrics)
        = length userCounts
    \<and> length (filter (\<lambda>m. Name m = ''wakatime_admin_user_time_seconds_total'') adminMetrics)
        = length activeUsers
          - length (filter (\<lambda>u. isl (summarySrvc_Aliased h (any_from h) (any_to h) u)) activeUsers)
    \<and> filter (\<lambda>m. Name m = ''wakatime_admin_users_active_total'') adminMetrics
        = [GaugeMetric ''wakatime_admin_users_active_total'' DescAdminActiveUsers
             (of_nat (length activeUsers)) (Some [])]
    \<and> length (filter (\<lambda>m. Name m = ''wakatime_admin_user_heartbeats_total'')
         (samples (Print_lines (sort_Sort h (userMetrics @ adminMetrics)))))
        = length userCounts
    \<and> length (filter (\<lambda>m. Name m = ''wakatime_admin_user_time_seconds_total'')
         (samples (Print_lines (sort_Sort h (userMetrics @ adminMetrics)))))
        = length activeUsers
          - length (filter (\<lambda>u. isl (summarySrvc_Aliased h (any_from h) (any_to h) u)) activeUsers)
    \<and> filter (\<lambda>m. Name m = ''wakatime_admin_users_active_total'')
         (samples (Print_lines (sort_Sort h (userMetrics @ adminMetrics))))
        = [GaugeMetric ''wakatime_admin_users_active_total'' DescAdminActiveUsers
             (of_nat (length activeUsers)) (Some [])]
    \<and> (length activeUsers < 2 ^ 63 \<longrightarrow>
         sint (of_nat (length activeUsers) :: int64) = int (length activeUsers))"
proof -
  let ?ams = "admin_rows h activeUsers userCounts"
  let ?rows = "sort_Sort h (userMetrics @ ?ams)"
  let ?K = "length (filter (\<lambda>u. isl (summarySrvc_Aliased h (any_from h) (any_to h) u)) activeUsers)"
  have ams: "fst (getAdminMetrics h user) = Inr ?ams"
    using assms(1,3,4) by (rule getAdminMetrics_ok)
  have post: "sort_Sort_post (userMetrics @ ?ams) ?rows"
    using assms(6) by blast
  note ok = Get_admin_ok [OF assms(1,2) ams post]
  have pre: "prefix (MetricsPrefix @ ''_admin_'') ''wakatime_admin_user_heartbeats_total''"
    "prefix (MetricsPrefix @ ''_admin_'') ''wakatime_admin_user_time_seconds_total''"
    "prefix (MetricsPrefix @ ''_admin_'') ''wakatime_admin_users_active_total''"
    by (simp_all add: MetricsPrefix_def)
  note same = pre [THEN sorted_rows_admin_filter [OF assms(2) ok(3)]]
  have hb: "length (filter (\<lambda>m. Name m = ''wakatime_admin_user_heartbeats_total'') ?ams)
      = length userCounts"
    by (simp add: filter_admin_rows_heartbeats)
  have tm: "length (filter (\<lambda>m. Name m = ''wakatime_admin_user_time_seconds_total'') ?ams)
      = length activeUsers - ?K"
    using assms(5) by (rule length_time_rows)
  have act: "filter (\<lambda>m. Name m = ''wakatime_admin_users_active_total'') ?ams
      = [GaugeMetric ''wakatime_admin_users_active_total'' DescAdminActiveUsers
           (of_nat (length activeUsers)) (Some [])]"
    by (rule filter_admin_rows_active)
  have hb': "length (filter (\<lambda>m. Name m = ''wakatime_admin_user_heartbeats_total'') ?rows)
      = length userCounts"
    using mset_eq_length [OF same(1)] hb by simp
  have tm': "length (filter (\<lambda>m. Name m = ''wakatime_admin_user_time_seconds_total'') ?rows)
      = length activeUsers - ?K"
    using mset_eq_length [OF same(2)] tm by simp
  have act': "filter (\<lambda>m. Name m = ''wakatime_admin_users_active_total'') ?rows
      = [GaugeMetric ''wakatime_admin_users_active_total'' DescAdminActiveUsers
           (of_nat (length activeUsers)) (Some [])]"
    using same(3) unfolding act by (simp only: mset.simps mset_single_iff)
  have val: "length activeUsers < 2 ^ 63 \<longrightarrow>
      sint (of_nat (length activeUsers) :: int64) = int (length activeUsers)"
    by (simp add: sint_of_nat_int64)
  show ?thesis
    apply (rule exI [of _ ?ams])
    using ams ok(1) hb tm act hb' tm' act' val
    by (simp only: ok(2) ok_response_def simp_thms)
qed

theorem admin_row_counts_witness:
  "IsAdmin alice
   \<and> fst (getUserMetrics demo_handler alice)
       = Inr (user_rows demo_handler demo_summary demo_summary 7)
   \<and> userSrvc_GetActive demo_handler False = Inr [alice, bob]
   \<and> heartbeatSrvc_CountByUsers demo_handler [alice, bob]
       = Inr [\<lparr>uc_User = ''alice'', uc_Count = 3\<rparr>, \<lparr>uc_User = ''bob'', uc_Count = 3\<rparr>]
   \<and> fst (Get demo_handler (Some alice)) =
       \<lparr>status = 200, header = [(''content-type'', ''text/plain; charset=utf-8'')],
        body = Print (sort_Sort demo_handler
          (user_rows demo_handler demo_summary demo_summary 7
           @ admin_rows demo_handler [alice, bob]
               [\<lparr>uc_User = ''alice'', uc_Count = 3\<rparr>, \<lparr>uc_User = ''bob'', uc_Count = 3\<rparr>]))\<rparr>
   \<and> length (filter (\<lambda>m. Name m = ''wakatime_admin_user_heartbeats_total'')
        (samples (Print_lines (sort_Sort demo_handler
          (user_rows demo_handler demo_summary demo_summary 7
           @ admin_rows demo_handler [alice, bob]
               [\<lparr>uc_User = ''alice'', uc_Count = 3\<rparr>, \<lparr>uc_User = ''bob'', uc_Count = 3\<rparr>]))))) = 2
   \<and> length (filter (\<lambda>m. Name m = ''wakatime_admin_user_time_seconds_total'')
        (samples (Print_lines (sort_Sort demo_handler
          (user_rows demo_handler demo_summary demo_summary 7
           @ admin_rows demo_handler [alice, bob]
               [\<lparr>uc_User = ''alice'', uc_Count = 3\<rparr>, \<lparr>uc_User = ''bob'', uc_Count = 3\<rparr>]))))) = 1
   \<and> filter (\<lambda>m. Name m = ''wakatime_admin_users_active_total'')
        (samples (Print_lines (sort_Sort demo_handler
          (user_rows demo_handler demo_summary demo_summary 7
           @ admin_rows demo_handler [alice, bob]
               [\<lparr>uc_User = ''alice'', uc_Count = 3\<rparr>, \<lparr>uc_User = ''bob'', uc_Count = 3\<rparr>]))))
       = [GaugeMetric ''wakatime_admin_users_active_total'' DescAdminActiveUsers 2 (Some [])]"
proof -
  have admin: "IsAdmin alice"
    by (simp add: alice_def)
  have user: "fst (getUserMetrics demo_handler alice)
      = Inr (user_rows demo_handler demo_summary demo_summary 7)"
    by (simp add: demo_user_metrics_alice)
  have active: "userSrvc_GetActive demo_handler False = Inr [alice, bob]"
    by (simp add: demo_handler_def)
  have counts: "heartbeatSrvc_CountByUsers demo_handler [alice, bob]
      = Inr [\<lparr>uc_User = ''alice'', uc_Count = 3\<rparr>, \<lparr>uc_User = ''bob'', uc_Count = 3\<rparr>]"
    by (simp add: demo_handler_def alice_def bob_def)
  have run: "fst (getAdminMetrics demo_handler alice)
      = Inr (admin_rows demo_handler [alice, bob]
          [\<lparr>uc_User = ''alice'', uc_Count = 3\<rparr>, \<lparr>uc_User = ''bob'', uc_Count = 3\<rparr>])"
    by (simp add: demo_admin_metrics)
  show ?thesis
    using admin_row_counts [OF admin user active counts demo_pool_order demo_sort_contract]
      admin user active counts
    by (simp add: run demo_failures)
qed

theorem heartbeat_rows_counterexample:
  "IsAdmin alice
   \<and> userSrvc_GetActive no_counts_handler False = Inr [alice, bob]
   \<and> length [alice, bob] = 2
   \<and> fst (Get no_counts_handler (Some alice)) =
       \<lparr>status = 200, header = [(''content-type'', ''text/plain; charset=utf-8'')],
        body = Print (sort_Sort no_counts_handler
          (user_rows no_counts_handler demo_summary demo_summary 7
           @ admin_rows no_counts_handler [alice, bob] [\<lparr>uc_User = ''alice'', uc_Count = 3\<rparr>]))\<rparr>
   \<and> length (filter (\<lambda>m. Name m = ''wakatime_admin_user_heartbeats_total'')
        (samples (Print_lines (sort_Sort no_counts_handler
          (user_rows no_counts_handler demo_summary demo_summary 7
           @ admin_rows no_counts_handler [alice, bob] [\<lparr>uc_User = ''alice'', uc_Count = 3\<rparr>]))))) = 1"
proof -
  let ?ums = "user_rows no_counts_handler demo_summary demo_summary 7"
  let ?ams = "admin_rows no_counts_handler [alice, bob] [\<lparr>uc_User = ''alice'', uc_Count = 3\<rparr>]"
  have admin: "IsAdmin alice"
    by (simp add: alice_def)
  have active: "userSrvc_GetActive no_counts_handler False = Inr [alice, bob]"
    by (simp add: no_counts_handler_def demo_handler_def)
  have post: "sort_Sort_post (?ums @ ?ams) (sort_Sort no_counts_handler (?ums @ ?ams))"
    by (simp add: no_counts_handler_def demo_handler_def demo_sort_post)
  note ok = Get_admin_ok [OF admin demo_no_counts_user_metrics demo_no_counts_metrics post]
  have "prefix (MetricsPrefix @ ''_admin_'') ''wakatime_admin_user_heartbeats_total''"
    by (simp add: MetricsPrefix_def)
  from mset_eq_length [OF sorted_rows_admin_filter [OF demo_no_counts_user_metrics ok(3) this]]
  have "length (filter (\<lambda>m. Name m = ''wakatime_admin_user_heartbeats_total'')
      (sort_Sort no_counts_handler (?ums @ ?ams))) = 1"
    by (simp add: filter_admin_rows_heartbeats)
  with admin active ok(1) show ?thesis
    by (simp add: ok(2) ok_response_def)
qed






text \<open>
  C5 (as the code has it). The user's summary of today has exactly the languages
  \<^verbatim>\<open>go\<close> and \<^verbatim>\<open>rust\<close>, both segments succeed and \<^verbatim>\<open>sort.Sort\<close> meets its contract
  on the merged set. Then the collector's language metrics are named
  \<^verbatim>\<open>wakatime_language_seconds_total\<close>, one gauge for each language with the language key
  as the value of its single label \<^verbatim>\<open>name\<close>, and the rendered answer holds, in one run
  of four lines, the \<^verbatim>\<open># HELP\<close> line and the \<^verbatim>\<open># TYPE\<close> line of that name followed by
  the sample line of \<^verbatim>\<open>go\<close> and the sample line of \<^verbatim>\<open>rust\<close>; no other line of the
  answer is about that name.
\<close>

theorem language_rows_grouped:
  assumes "fst (getUserMetrics h user) = Inr userMetrics"
    and "if IsAdmin user then fst (getAdminMetrics h user) = Inr adminMetrics
         else adminMetrics = []"
    and "summarySrvc_Aliased h (fst (helpers_MustResolveIntervalRawTZ_today h user))
           (snd (helpers_MustResolveIntervalRawTZ_today h user)) user = Inr summaryToday"
    and "map item_Key (Languages summaryToday) = [''go'', ''rust'']
       \<or> map item_Key (Languages summaryToday) = [''rust'', ''go'']"
    and "sort_Sort_post (userMetrics @ adminMetrics) (sort_Sort h (userMetrics @ adminMetrics))"
  shows "\<exists>before after.
      filter (\<lambda>m. Name m = ''wakatime_language_seconds_total'') userMetrics
        = map (\<lambda>k. GaugeMetric ''wakatime_language_seconds_total'' DescLanguages
                     (Duration_Seconds h (Summary_TotalTimeByKey h summaryToday SummaryLanguage k))
                     (Some [Label ''name'' k]))
            (map item_Key (Languages summaryToday))
    \<and> fst (Get h (Some user)) =
        \<lparr>status = 200, header = [(''content-type'', ''text/plain; charset=utf-8'')],
         body = Print (sort_Sort h (userMetrics @ adminMetrics))\<rparr>
    \<and> Print_lines (sort_Sort h (userMetrics @ adminMetrics)) =
        before
        @ [Help_line ''wakatime_language_seconds_total'' ''Total seconds for each language.'',
           Type_line ''wakatime_language_seconds_total'' gauge,
           Sample_line (GaugeMetric ''wakatime_language_seconds_total'' DescLanguages
             (Duration_Seconds h (Summary_TotalTimeByKey h summaryToday SummaryLanguage ''go''))
             (Some [Label ''name'' ''go''])),
           Sample_line (GaugeMetric ''wakatime_language_seconds_total'' DescLanguages
             (Duration_Seconds h (Summary_TotalTimeByKey h summaryToday SummaryLanguage ''rust''))
             (Some [Label ''name'' ''rust'']))]
        @ after
    \<and> (\<forall>l \<in> set (before @ after). line_name l \<noteq> ''wakatime_language_seconds_total'')
    \<and> Print (sort_Sort h (userMetrics @ adminMetrics)) =
        concat (map (\<lambda>l. render_line l @ [CHR 0x0A]) before)
        @ ''# HELP wakatime_language_seconds_total Total seconds for each language.'' @ [CHR 0x0A]
        @ ''# TYPE wakatime_language_seconds_total gauge'' @ [CHR 0x0A]
        @ ''wakatime_language_seconds_total{name='' @ [CHR 0x22] @ ''go'' @ [CHR 0x22] @ ''} ''
        @ show_int64 (Duration_Seconds h (Summary_TotalTimeByKey h summaryToday SummaryLanguage ''go''))
        @ [CHR 0x0A]
        @ ''wakatime_language_seconds_total{name='' @ [CHR 0x22] @ ''rust'' @ [CHR 0x22] @ ''} ''
        @ show_int64 (Duration_Seconds h (Summary_TotalTimeByKey h summaryToday SummaryLanguage ''rust''))
        @ [CHR 0x0A]
        @ concat (map (\<lambda>l. render_line l @ [CHR 0x0A]) after)"
proof -
  let ?n = "''wakatime_language_seconds_total''"
  let ?row = "\<lambda>k. GaugeMetric ?n DescLanguages
      (Duration_Seconds h (Summary_TotalTimeByKey h summaryToday SummaryLanguage k))
      (Some [Label ''name'' k])"
  let ?rows = "sort_Sort h (userMetrics @ adminMetrics)"
  from getUserMetrics_Inr [OF assms(1)] assms(3)
  obtain sa hc where ums: "userMetrics = user_rows h sa summaryToday hc"
    by auto
  have langs: "filter (\<lambda>m. Name m = ?n) userMetrics
      = map ?row (map item_Key (Languages summaryToday))"
    unfolding ums by (rule filter_user_rows_language)
  have none: "filter (\<lambda>m. Name m = ?n) adminMetrics = []"
  proof (cases "IsAdmin user")
    case True
    with assms(2) have "fst (getAdminMetrics h user) = Inr adminMetrics"
      by simp
    from getAdminMetrics_Inr [OF this] obtain au ucs where "adminMetrics = admin_rows h au ucs"
      by blast
    then show ?thesis
      by (simp add: filter_admin_rows_user_name MetricsPrefix_def)
  next
    case False
    with assms(2) show ?thesis
      by simp
  qed
  have perm: "mset ?rows = mset (userMetrics @ adminMetrics)"
    and sorted: "sorted (map Metric_Key ?rows)"
    using assms(5) by (simp_all add: sort_Sort_post_iff)
  have "mset (filter (\<lambda>m. Name m = ?n) ?rows)
      = mset (filter (\<lambda>m. Name m = ?n) (userMetrics @ adminMetrics))"
    using perm by simp
  also have "\<dots> = mset (map ?row (map item_Key (Languages summaryToday)))"
    using langs none by simp
  also have "\<dots> = {#?row ''go'', ?row ''rust''#}"
    using assms(4) by auto
  finally have two: "mset (filter (\<lambda>m. Name m = ?n) ?rows) = {#?row ''go'', ?row ''rust''#}" .
  have order: "sorted (map Metric_Key (filter (\<lambda>m. Name m = ?n) ?rows))"
    using sorted by (rule sorted_filter)
  have less: "Metric_Key (?row ''go'') < Metric_Key (?row ''rust'')"
    by (simp add: Metric_Key_def first_label_value_def)
  have found: "filter (\<lambda>m. Name m = ?n) ?rows = [?row ''go'', ?row ''rust'']"
    using two order less by (rule two_sorted_rows)
  have blk: "block ?rows ?n =
      [Help_line ?n ''Total seconds for each language.'', Type_line ?n gauge,
       Sample_line (?row ''go''), Sample_line (?row ''rust'')]"
    by (simp add: block_def found DescLanguages_def)
  have "?row ''go'' \<in> set (filter (\<lambda>m. Name m = ?n) ?rows)"
    by (simp only: found) simp
  then have mem: "?row ''go'' \<in> set ?rows"
    by simp
  have "?n \<in> Name ` set ?rows"
    using imageI [OF mem, of Name] by simp
  from Print_lines_split [OF this] obtain before after
    where split: "Print_lines ?rows = before @ block ?rows ?n @ after"
      and others: "\<forall>l \<in> set (before @ after). line_name l \<noteq> ?n"
    by blast
  have answer: "fst (Get h (Some user)) =
        \<lparr>status = 200, header = [(''content-type'', ''text/plain; charset=utf-8'')],
         body = Print ?rows\<rparr>"
    using Get_ok [OF assms(1,2)] by (simp add: ok_response_def)
  have rendered: "Print ?rows =
        concat (map (\<lambda>l. render_line l @ [CHR 0x0A]) before)
        @ ''# HELP wakatime_language_seconds_total Total seconds for each language.'' @ [CHR 0x0A]
        @ ''# TYPE wakatime_language_seconds_total gauge'' @ [CHR 0x0A]
        @ ''wakatime_language_seconds_total{name='' @ [CHR 0x22] @ ''go'' @ [CHR 0x22] @ ''} ''
        @ show_int64 (Duration_Seconds h (Summary_TotalTimeByKey h summaryToday SummaryLanguage ''go''))
        @ [CHR 0x0A]
        @ ''wakatime_language_seconds_total{name='' @ [CHR 0x22] @ ''rust'' @ [CHR 0x22] @ ''} ''
        @ show_int64 (Duration_Seconds h (Summary_TotalTimeByKey h summaryToday SummaryLanguage ''rust''))
        @ [CHR 0x0A]
        @ concat (map (\<lambda>l. render_line l @ [CHR 0x0A]) after)"
    by (simp add: Print_def split blk render_labels_def render_label_def)
  show ?thesis
    apply (rule exI [of _ before], rule exI [of _ after])
    using langs answer split others rendered
    by (simp only: blk simp_thms)
qed

theorem language_rows_grouped_witness:
  "fst (getUserMetrics demo_handler carol)
     = Inr (user_rows demo_handler demo_summary demo_summary 7)
   \<and> \<not> IsAdmin carol
   \<and> map item_Key (Languages demo_summary) = [''rust'', ''go'']
   \<and> (\<exists>before after.
        Print_lines (sort_Sort demo_handler
            (user_rows demo_handler demo_summary demo_summary 7)) =
          before
          @ [Help_line ''wakatime_language_seconds_total'' ''Total seconds for each language.'',
             Type_line ''wakatime_language_seconds_total'' gauge,
             Sample_line (GaugeMetric ''wakatime_language_seconds_total'' DescLanguages 3
               (Some [Label ''name'' ''go''])),
             Sample_line (GaugeMetric ''wakatime_language_seconds_total'' DescLanguages 2
               (Some [Label ''name'' ''rust'']))]
          @ after
        \<and> (\<forall>l \<in> set (before @ after). line_name l \<noteq> ''wakatime_language_seconds_total''))"
proof -
  let ?ums = "user_rows demo_handler demo_summary demo_summary 7"
  have user: "fst (getUserMetrics demo_handler carol) = Inr ?ums"
    by (simp add: demo_user_metrics)
  have plain: "\<not> IsAdmin carol"
    by (simp add: carol_def)
  have admin: "if IsAdmin carol then fst (getAdminMetrics demo_handler carol) = Inr []
      else [] = ([] :: Metric list)"
    using plain by simp
  have langs: "map item_Key (Languages demo_summary) = [''go'', ''rust'']
      \<or> map item_Key (Languages demo_summary) = [''rust'', ''go'']"
    by (simp add: demo_languages)
  have post: "sort_Sort_post (?ums @ []) (sort_Sort demo_handler (?ums @ []))"
    using demo_sort_contract by blast
  from language_rows_grouped [OF user admin demo_today langs post]
  obtain before after where
    "Print_lines (sort_Sort demo_handler ?ums) =
          before
          @ [Help_line ''wakatime_language_seconds_total'' ''Total seconds for each language.'',
             Type_line ''wakatime_language_seconds_total'' gauge,
             Sample_line (GaugeMetric ''wakatime_language_seconds_total'' DescLanguages 3
               (Some [Label ''name'' ''go''])),
             Sample_line (GaugeMetric ''wakatime_language_seconds_total'' DescLanguages 2
               (Some [Label ''name'' ''rust'']))]
          @ after"
    and "\<forall>l \<in> set (before @ after). line_name l \<noteq> ''wakatime_language_seconds_total''"
    by (auto simp: demo_language_values)
  then have "\<exists>before after.
        Print_lines (sort_Sort demo_handler ?ums) =
          before
          @ [Help_line ''wakatime_language_seconds_total'' ''Total seconds for each language.'',
             Type_line ''wakatime_language_seconds_total'' gauge,
             Sample_line (GaugeMetric ''wakatime_language_seconds_total'' DescLanguages 3
               (Some [Label ''name'' ''go''])),
             Sample_line (GaugeMetric ''wakatime_language_seconds_total'' DescLanguages 2
               (Some [Label ''name'' ''rust'']))]
          @ after
        \<and> (\<forall>l \<in> set (before @ after). line_name l \<noteq> ''wakatime_language_seconds_total'')"
    by blast
  with user plain demo_languages show ?thesis
    by (simp only: simp_thms)
qed

theorem language_metric_name_counterexample:
  "map item_Key (Languages demo_summary) = [''rust'', ''go'']
   \<and> fst (getUserMetrics demo_handler carol)
       = Inr (user_rows demo_handler demo_summary demo_summary 7)
   \<and> filter (\<lambda>m. Name m = ''wakapi_language_seconds_total'')
        (user_rows demo_handler demo_summary demo_summary 7) = []
   \<and> filter (\<lambda>m. Name m = ''wakatime_language_seconds_total'')
        (user_rows demo_handler demo_summary demo_summary 7)
       = [GaugeMetric ''wakatime_language_seconds_total'' DescLanguages 2
            (Some [Label ''name'' ''rust'']),
          GaugeMetric ''wakatime_language_seconds_total'' DescLanguages 3
            (Some [Label ''name'' ''go''])]
   \<and> fst (Get demo_handler (Some carol)) =
       \<lparr>status = 200, header = [(''content-type'', ''text/plain; charset=utf-8'')],
        body = Print (sort_Sort demo_handler
                 (user_rows demo_handler demo_summary demo_summary 7))\<rparr>
   \<and> filter (\<lambda>l. line_name l = ''wakapi_language_seconds_total'')
        (Print_lines (sort_Sort demo_handler
           (user_rows demo_handler demo_summary demo_summary 7))) = []"
proof -
  let ?ums = "user_rows demo_handler demo_summary demo_summary 7"
  have user: "fst (getUserMetrics demo_handler carol) = Inr ?ums"
    by (simp add: demo_user_metrics)
  have admin: "if IsAdmin carol then fst (getAdminMetrics demo_handler carol) = Inr []
      else [] = ([] :: Metric list)"
    by (simp add: carol_def)
  have answer: "fst (Get demo_handler (Some carol)) =
       \<lparr>status = 200, header = [(''content-type'', ''text/plain; charset=utf-8'')],
        body = Print (sort_Sort demo_handler ?ums)\<rparr>"
    using Get_ok [OF user admin] by (simp add: ok_response_def)
  have none: "filter (\<lambda>m. Name m = ''wakapi_language_seconds_total'') ?ums = []"
    by (simp add: user_rows_def filter_breakdown_other filter_queue_rows_other MetricsPrefix_def)
  have langs: "filter (\<lambda>m. Name m = ''wakatime_language_seconds_total'') ?ums
       = [GaugeMetric ''wakatime_language_seconds_total'' DescLanguages 2
            (Some [Label ''name'' ''rust'']),
          GaugeMetric ''wakatime_language_seconds_total'' DescLanguages 3
            (Some [Label ''name'' ''go''])]"
    by (simp add: filter_user_rows_language demo_languages demo_language_values)
  have "set (sort_Sort demo_handler ?ums) = set ?ums"
    by (simp add: demo_handler_def)
  with none have absent: "''wakapi_language_seconds_total'' \<notin> Name ` set (sort_Sort demo_handler ?ums)"
    by (auto simp: filter_empty_conv)
  have lines: "filter (\<lambda>l. line_name l = ''wakapi_language_seconds_total'')
      (Print_lines (sort_Sort demo_handler ?ums)) = []"
    unfolding filter_empty_conv
  proof
    fix l
    assume "l \<in> set (Print_lines (sort_Sort demo_handler ?ums))"
    then have "line_name l \<in> Name ` set (sort_Sort demo_handler ?ums)"
      by (rule line_name_Print_lines)
    with absent show "line_name l \<noteq> ''wakapi_language_seconds_total''"
      by auto
  qed
  show ?thesis
    using demo_languages user none langs answer lines by (simp only: simp_thms)
qed

end
